theory Spec2Isabelle
  imports Complex_Main "HOL-Library.AList"
begin

section \<open>Shared Python idioms\<close>

text \<open>
  The story engine is written in Python. Integers are unbounded (\<open>int\<close>), dictionaries
  are maps or association lists, exceptions are values of \<open>py_error\<close>. Floating-point
  numbers (edge probabilities, readiness scores, personality modifiers) are modelled by
  exact rationals; every statement below that depends on them says so.
\<close>

datatype py_error = NodeNotFound | ReError

text \<open>\<open>int(x)\<close> on a float: truncation toward zero.\<close>

definition py_int :: "rat \<Rightarrow> int" where
  "py_int x = (if 0 \<le> x then \<lfloor>x\<rfloor> else \<lceil>x\<rceil>)"

section \<open>Karma system (services/karma\_system.py)\<close>

text \<open>
  \<open>KarmaSystem.KARMA_LEVELS\<close>, in the dictionary's insertion order. The level
  descriptions are Spanish prose; accented letters are written without the accent.
\<close>

definition KARMA_LEVELS :: "((int \<times> int) \<times> (string \<times> string)) list" where
  "KARMA_LEVELS =
    [((90, 100), (''heroico'', ''Leyenda viviente, simbolo de esperanza'')),
     ((70, 89), (''honorable'', ''Respetado defensor del bien'')),
     ((50, 69), (''neutral'', ''Pragmatico, ni heroe ni villano'')),
     ((30, 49), (''dudoso'', ''Cuestionable, motivos sospechosos'')),
     ((10, 29), (''infame'', ''Temido y despreciado'')),
     ((0, 9), (''villano'', ''Encarnacion de la maldad''))]"

text \<open>The \<open>for\<close> loop of \<open>get_karma_level\<close> with its fall-through return.\<close>

fun karma_level_loop :: "((int \<times> int) \<times> (string \<times> string)) list \<Rightarrow> int \<Rightarrow> string \<times> string" where
  "karma_level_loop [] karma = (''neutral'', ''Estado desconocido'')"
| "karma_level_loop (((low, high), (name, desc)) # rest) karma =
     (if low \<le> karma \<and> karma \<le> high then (name, desc) else karma_level_loop rest karma)"

definition get_karma_level :: "int \<Rightarrow> string \<times> string" where
  "get_karma_level karma = karma_level_loop KARMA_LEVELS (max 0 (min 100 karma))"

definition apply_karma_change :: "int \<Rightarrow> int \<Rightarrow> int \<times> bool" where
  "apply_karma_change current_karma change =
     (let old_level = fst (get_karma_level current_karma);
          new_karma = max 0 (min 100 (current_karma + change));
          new_level = fst (get_karma_level new_karma);
          level_changed = (old_level \<noteq> new_level)
      in (new_karma, level_changed))"

text \<open>
  The six ranges as the specification words them: 0-9 villano, 10-29 infame, 30-49 dudoso,
  50-69 neutral, 70-89 honorable, 90-100 heroico, values outside 0..100 clamped first.
\<close>

definition six_range_level :: "int \<Rightarrow> string" where
  "six_range_level karma =
     (let k = max 0 (min 100 karma) in
      if k \<le> 9 then ''villano'' else if k \<le> 29 then ''infame''
      else if k \<le> 49 then ''dudoso'' else if k \<le> 69 then ''neutral''
      else if k \<le> 89 then ''honorable'' else ''heroico'')"

lemma karma_level_loop_six_range:
  "0 \<le> k \<Longrightarrow> k \<le> 100 \<Longrightarrow> fst (karma_level_loop KARMA_LEVELS k) =
     (if k \<le> 9 then ''villano'' else if k \<le> 29 then ''infame''
      else if k \<le> 49 then ''dudoso'' else if k \<le> 69 then ''neutral''
      else if k \<le> 89 then ''honorable'' else ''heroico'')"
  by (simp add: KARMA_LEVELS_def)

lemma get_karma_level_six_range: "fst (get_karma_level karma) = six_range_level karma"
  unfolding get_karma_level_def six_range_level_def Let_def
  by (rule karma_level_loop_six_range) simp_all

text \<open>
  Claim C4. For every karma value and delta, \<open>apply_karma_change\<close> returns the sum
  clamped to 0..100, and \<open>level_changed\<close> is true exactly when the six-range level name
  of the old karma differs from that of the new karma. Karma 50 with delta -60 gives
  karma 0 and \<open>level_changed\<close>, going from the neutral range to the villano range.
\<close>

theorem apply_karma_change_clamps_and_flags_level:
  "fst (apply_karma_change karma delta) = max 0 (min 100 (karma + delta))
   \<and> 0 \<le> fst (apply_karma_change karma delta)
   \<and> fst (apply_karma_change karma delta) \<le> 100
   \<and> snd (apply_karma_change karma delta) =
       (six_range_level karma \<noteq> six_range_level (max 0 (min 100 (karma + delta))))
   \<and> snd (apply_karma_change karma delta) =
       (fst (get_karma_level karma) \<noteq> fst (get_karma_level (fst (apply_karma_change karma delta))))
   \<and> apply_karma_change 50 (- 60) = (0, True)
   \<and> fst (get_karma_level 50) = ''neutral''
   \<and> fst (get_karma_level 0) = ''villano''"
proof -
  have a: "apply_karma_change karma delta =
      (max 0 (min 100 (karma + delta)),
       six_range_level karma \<noteq> six_range_level (max 0 (min 100 (karma + delta))))"
    by (simp add: apply_karma_change_def Let_def get_karma_level_six_range)
  have b: "apply_karma_change 50 (- 60) = (0, True)"
    by (simp add: apply_karma_change_def Let_def get_karma_level_six_range six_range_level_def)
  have c: "fst (get_karma_level 50) = ''neutral''" "fst (get_karma_level 0) = ''villano''"
    by (simp_all add: get_karma_level_six_range six_range_level_def)
  show ?thesis
    using b c by (simp add: a get_karma_level_six_range)
qed

subsection \<open>Faction standings\<close>

text \<open>\<open>FACTION_THRESHOLDS\<close> of config.py, each inner dictionary in insertion order.\<close>

definition FACTION_THRESHOLDS :: "(string \<times> (string \<times> int) list) list" where
  "FACTION_THRESHOLDS =
    [(''corona'', [(''trust_threshold'', 60), (''betray_threshold'', 30), (''hero_threshold'', 80)]),
     (''pueblo'', [(''hero_threshold'', 80), (''villain_threshold'', 20)]),
     (''orden_llama'', [(''recruit_threshold'', - 40)]),
     (''gremio_mercaderes'', [(''discount_threshold'', 70), (''ban_threshold'', 20)])]"

text \<open>
  The local table \<open>faction_relations\<close> of \<open>update_faction_standing\<close>. The ratios are
  the decimal literals -0.5, -0.3 and -0.2, held here as exact rationals.
\<close>

definition faction_relations :: "(string \<times> (string \<times> rat) list) list" where
  "faction_relations =
    [(''corona'', [(''orden_llama'', - (1 / 2))]),
     (''orden_llama'', [(''corona'', - (3 / 10)), (''pueblo'', - (1 / 5))]),
     (''rebeldes'', [(''corona'', - (3 / 10))])]"

text \<open>
  The five threshold checks of \<open>update_faction_standing\<close>, in source order; an event is
  the f-string \<open>faction + suffix\<close>. A \<open>discount_threshold\<close> or \<open>ban_threshold\<close> is
  never looked at.
\<close>

definition threshold_events :: "string \<Rightarrow> (string \<times> int) list \<Rightarrow> int \<Rightarrow> int \<Rightarrow> string list" where
  "threshold_events faction thresholds old_value new_value =
     (case map_of thresholds ''trust_threshold'' of
        None \<Rightarrow> []
      | Some threshold \<Rightarrow>
          if old_value < threshold \<and> threshold \<le> new_value then [faction @ ''_trust_gained'']
          else if old_value \<ge> threshold \<and> threshold > new_value then [faction @ ''_trust_lost'']
          else [])
     @ (case map_of thresholds ''betray_threshold'' of
        None \<Rightarrow> []
      | Some threshold \<Rightarrow>
          if old_value \<ge> threshold \<and> threshold > new_value then [faction @ ''_turned_hostile'']
          else [])
     @ (case map_of thresholds ''hero_threshold'' of
        None \<Rightarrow> []
      | Some threshold \<Rightarrow>
          if old_value < threshold \<and> threshold \<le> new_value then [faction @ ''_hero_status'']
          else [])
     @ (case map_of thresholds ''villain_threshold'' of
        None \<Rightarrow> []
      | Some threshold \<Rightarrow>
          if old_value \<ge> threshold \<and> threshold > new_value then [faction @ ''_villain_status'']
          else [])
     @ (case map_of thresholds ''recruit_threshold'' of
        None \<Rightarrow> []
      | Some threshold \<Rightarrow>
          if old_value > threshold \<and> threshold \<ge> new_value then [faction @ ''_recruitment_attempt'']
          else [])"

text \<open>
  One iteration of the loop over related factions: only a faction already present in the
  map is changed, by \<open>int(change * ratio)\<close>, clamped to 0..100.
\<close>

definition propagate_relation :: "int \<Rightarrow> (string \<rightharpoonup> int) \<Rightarrow> string \<times> rat \<Rightarrow> (string \<rightharpoonup> int)" where
  "propagate_relation change new_standings rel =
     (case rel of (related_faction, ratio) \<Rightarrow>
        (case new_standings related_faction of
           None \<Rightarrow> new_standings
         | Some v \<Rightarrow>
             (let related_change = py_int (of_int change * ratio)
              in new_standings(related_faction \<mapsto> max 0 (min 100 (v + related_change))))))"

definition update_faction_standing ::
  "(string \<rightharpoonup> int) \<Rightarrow> string \<Rightarrow> int \<Rightarrow> string option \<Rightarrow> (string \<rightharpoonup> int) \<times> string list" where
  "update_faction_standing current_standings faction change action_context =
     (let old_value = (case current_standings faction of None \<Rightarrow> 50 | Some v \<Rightarrow> v);
          new_value = max 0 (min 100 (old_value + change));
          new_standings = current_standings(faction \<mapsto> new_value);
          events = (case map_of FACTION_THRESHOLDS faction of
                      None \<Rightarrow> []
                    | Some thresholds \<Rightarrow> threshold_events faction thresholds old_value new_value);
          new_standings' = (case map_of faction_relations faction of
                      None \<Rightarrow> new_standings
                    | Some rels \<Rightarrow> foldl (propagate_relation change) new_standings rels)
      in (new_standings', events))"

text \<open>
  The data model's type of a standings map: every stored value lies in 0..100. The
  primary faction's value before the update is the stored one, or 50 when absent.
\<close>

definition standings_in_range :: "(string \<rightharpoonup> int) \<Rightarrow> bool" where
  "standings_in_range s = (\<forall>f v. s f = Some v \<longrightarrow> 0 \<le> v \<and> v \<le> 100)"

definition threshold_of :: "string \<Rightarrow> string \<Rightarrow> int option" where
  "threshold_of faction kind =
     (case map_of FACTION_THRESHOLDS faction of None \<Rightarrow> None | Some ths \<Rightarrow> map_of ths kind)"

definition standing_before :: "(string \<rightharpoonup> int) \<Rightarrow> string \<Rightarrow> int" where
  "standing_before s faction = (case s faction of None \<Rightarrow> 50 | Some v \<Rightarrow> v)"

lemma propagate_in_range:
  "standings_in_range s \<Longrightarrow> standings_in_range (propagate_relation change s rel)"
  by (cases rel) (auto simp: standings_in_range_def propagate_relation_def Let_def split: option.splits)

lemma foldl_propagate_in_range:
  "standings_in_range s \<Longrightarrow> standings_in_range (foldl (propagate_relation change) s rels)"
  by (induction rels arbitrary: s) (simp_all add: propagate_in_range)

lemma upd_clamped_in_range:
  "standings_in_range s \<Longrightarrow> standings_in_range (s(f \<mapsto> max 0 (min 100 x)))"
  by (auto simp: standings_in_range_def)

lemma update_in_range:
  "standings_in_range s \<Longrightarrow> standings_in_range (fst (update_faction_standing s faction change ctx))"
  unfolding update_faction_standing_def Let_def
  by (simp split: option.splits add: foldl_propagate_in_range upd_clamped_in_range)

lemma propagate_other:
  "f \<noteq> fst rel \<Longrightarrow> propagate_relation change s rel f = s f"
  by (cases rel) (auto simp: propagate_relation_def Let_def split: option.splits)

lemma foldl_propagate_other:
  "f \<notin> fst ` set rels \<Longrightarrow> foldl (propagate_relation change) s rels f = s f"
  by (induction rels arbitrary: s) (auto simp: propagate_other)

lemma faction_not_self_related:
  "map_of faction_relations faction = Some rels \<Longrightarrow> faction \<notin> fst ` set rels"
  by (auto simp: faction_relations_def split: if_splits)

lemma update_primary_value:
  "fst (update_faction_standing s faction change ctx) faction =
     Some (max 0 (min 100 (standing_before s faction + change)))"
  unfolding update_faction_standing_def Let_def standing_before_def
  by (auto split: option.splits simp: foldl_propagate_other dest!: faction_not_self_related)


lemma events_eq:
  "snd (update_faction_standing s faction change ctx) =
     (case map_of FACTION_THRESHOLDS faction of
        None \<Rightarrow> []
      | Some thresholds \<Rightarrow> threshold_events faction thresholds (standing_before s faction)
          (max 0 (min 100 (standing_before s faction + change))))"
  by (simp add: update_faction_standing_def Let_def standing_before_def cong: option.case_cong)

definition event_suffixes :: "string list" where
  "event_suffixes = [''_trust_gained'', ''_trust_lost'', ''_turned_hostile'', ''_hero_status'',
     ''_villain_status'', ''_recruitment_attempt'']"

lemma events_of_primary_only:
  "set (snd (update_faction_standing s faction change ctx)) \<subseteq> (\<lambda>sfx. faction @ sfx) ` set event_suffixes"
  unfolding events_eq
  by (auto simp: threshold_events_def event_suffixes_def split: option.splits if_splits)

lemma related_names_differ:
  assumes "map_of faction_relations faction = Some rels" and "(r, ratio) \<in> set rels"
  shows "r @ sfx \<noteq> faction @ sfx'"
  using assms by (auto simp: faction_relations_def split: if_splits)

text \<open>
  Claim C2. For every standings map (values in 0..100, as the data model has it), faction
  and delta, all values of the returned map are within 0..100; the primary faction's new
  value is its old value plus the delta, clamped. Each threshold event is emitted exactly
  when the faction has that threshold configured and the primary faction's value before
  and after the update straddle it in the event's direction (upward for trust gained and
  hero status; downward for trust lost, turned hostile, villain status and recruitment
  attempt). Every emitted event is an event of the primary faction, and no event of a
  related faction, to which a share of the delta is propagated, is ever emitted.
\<close>

theorem update_faction_standing_range_and_events:
  fixes s :: "string \<rightharpoonup> int" and faction :: string and change :: int and ctx :: "string option"
  defines "before \<equiv> standing_before s faction"
  defines "after \<equiv> max 0 (min 100 (standing_before s faction + change))"
  defines "events \<equiv> snd (update_faction_standing s faction change ctx)"
  shows "(standings_in_range s \<longrightarrow> standings_in_range (fst (update_faction_standing s faction change ctx)))
    \<and> fst (update_faction_standing s faction change ctx) faction = Some after
    \<and> 0 \<le> after \<and> after \<le> 100
    \<and> (faction @ ''_trust_gained'' \<in> set events) =
        (\<exists>t. threshold_of faction ''trust_threshold'' = Some t \<and> before < t \<and> t \<le> after)
    \<and> (faction @ ''_trust_lost'' \<in> set events) =
        (\<exists>t. threshold_of faction ''trust_threshold'' = Some t \<and> before \<ge> t \<and> t > after)
    \<and> (faction @ ''_turned_hostile'' \<in> set events) =
        (\<exists>t. threshold_of faction ''betray_threshold'' = Some t \<and> before \<ge> t \<and> t > after)
    \<and> (faction @ ''_hero_status'' \<in> set events) =
        (\<exists>t. threshold_of faction ''hero_threshold'' = Some t \<and> before < t \<and> t \<le> after)
    \<and> (faction @ ''_villain_status'' \<in> set events) =
        (\<exists>t. threshold_of faction ''villain_threshold'' = Some t \<and> before \<ge> t \<and> t > after)
    \<and> (faction @ ''_recruitment_attempt'' \<in> set events) =
        (\<exists>t. threshold_of faction ''recruit_threshold'' = Some t \<and> before > t \<and> t \<ge> after)
    \<and> set events \<subseteq> (\<lambda>sfx. faction @ sfx) ` set event_suffixes
    \<and> (\<forall>rels r ratio sfx. map_of faction_relations faction = Some rels \<longrightarrow> (r, ratio) \<in> set rels
          \<longrightarrow> r @ sfx \<notin> set events)"
proof -
  have ev: "events = (case map_of FACTION_THRESHOLDS faction of
        None \<Rightarrow> []
      | Some thresholds \<Rightarrow> threshold_events faction thresholds before after)"
    unfolding events_def before_def after_def by (rule events_eq)
  have r: "standings_in_range s \<longrightarrow> standings_in_range (fst (update_faction_standing s faction change ctx))"
    by (simp add: update_in_range)
  have p: "fst (update_faction_standing s faction change ctx) faction = Some after"
    unfolding after_def by (rule update_primary_value)
  have b: "0 \<le> after \<and> after \<le> 100"
    unfolding after_def by simp
  have e1: "(faction @ ''_trust_gained'' \<in> set events) =
        (\<exists>t. threshold_of faction ''trust_threshold'' = Some t \<and> before < t \<and> t \<le> after)"
    unfolding ev threshold_of_def
    by (force simp: threshold_events_def split: option.splits if_splits)
  have e2: "(faction @ ''_trust_lost'' \<in> set events) =
        (\<exists>t. threshold_of faction ''trust_threshold'' = Some t \<and> before \<ge> t \<and> t > after)"
    unfolding ev threshold_of_def
    by (force simp: threshold_events_def split: option.splits if_splits)
  have e3: "(faction @ ''_turned_hostile'' \<in> set events) =
        (\<exists>t. threshold_of faction ''betray_threshold'' = Some t \<and> before \<ge> t \<and> t > after)"
    unfolding ev threshold_of_def
    by (force simp: threshold_events_def split: option.splits if_splits)
  have e4: "(faction @ ''_hero_status'' \<in> set events) =
        (\<exists>t. threshold_of faction ''hero_threshold'' = Some t \<and> before < t \<and> t \<le> after)"
    unfolding ev threshold_of_def
    by (force simp: threshold_events_def split: option.splits if_splits)
  have e5: "(faction @ ''_villain_status'' \<in> set events) =
        (\<exists>t. threshold_of faction ''villain_threshold'' = Some t \<and> before \<ge> t \<and> t > after)"
    unfolding ev threshold_of_def
    by (force simp: threshold_events_def split: option.splits if_splits)
  have e6: "(faction @ ''_recruitment_attempt'' \<in> set events) =
        (\<exists>t. threshold_of faction ''recruit_threshold'' = Some t \<and> before > t \<and> t \<ge> after)"
    unfolding ev threshold_of_def
    by (force simp: threshold_events_def split: option.splits if_splits)
  have sub: "set events \<subseteq> (\<lambda>sfx. faction @ sfx) ` set event_suffixes"
    unfolding events_def by (rule events_of_primary_only)
  have rel: "\<forall>rels r ratio sfx. map_of faction_relations faction = Some rels \<longrightarrow> (r, ratio) \<in> set rels
          \<longrightarrow> r @ sfx \<notin> set events"
    using sub related_names_differ by blast
  show ?thesis
    using r p b e1 e2 e3 e4 e5 e6 sub rel by blast
qed

theorem update_faction_standing_range_and_events_witness:
  "standings_in_range [''corona'' \<mapsto> 55, ''orden_llama'' \<mapsto> 50]
   \<and> standings_in_range (fst (update_faction_standing [''corona'' \<mapsto> 55, ''orden_llama'' \<mapsto> 50] ''corona'' 10 None))
   \<and> fst (update_faction_standing [''corona'' \<mapsto> 55, ''orden_llama'' \<mapsto> 50] ''corona'' 10 None) ''corona'' = Some 65
   \<and> ''corona_trust_gained'' \<in> set (snd (update_faction_standing [''corona'' \<mapsto> 55, ''orden_llama'' \<mapsto> 50] ''corona'' 10 None))
   \<and> ''orden_llama_trust_lost'' \<notin> set (snd (update_faction_standing [''corona'' \<mapsto> 55, ''orden_llama'' \<mapsto> 50] ''corona'' 10 None))"
proof -
  let ?s = "[''corona'' \<mapsto> 55, ''orden_llama'' \<mapsto> (50::int)]"
  have h: "standings_in_range ?s"
    by (auto simp: standings_in_range_def split: if_splits)
  have t: "threshold_of ''corona'' ''trust_threshold'' = Some 60"
    by (simp add: threshold_of_def FACTION_THRESHOLDS_def)
  have m: "map_of faction_relations ''corona'' = Some [(''orden_llama'', - (1 / 2))]"
    by (simp add: faction_relations_def)
  have sb: "standing_before ?s ''corona'' = 55"
    by (simp add: standing_before_def)
  note inst = update_faction_standing_range_and_events [of ?s "''corona''" 10 None]
  have 1: "standings_in_range (fst (update_faction_standing ?s ''corona'' 10 None))"
    using inst h by blast
  have 2: "fst (update_faction_standing ?s ''corona'' 10 None) ''corona'' = Some 65"
    using inst by (simp add: sb)
  have 3: "''corona'' @ ''_trust_gained'' \<in> set (snd (update_faction_standing ?s ''corona'' 10 None))"
    using inst by (simp add: sb t)
  have 4: "''orden_llama'' @ ''_trust_lost'' \<notin> set (snd (update_faction_standing ?s ''corona'' 10 None))"
    using inst m by (metis list.set_intros(1))
  show ?thesis
    using h 1 2 3 4 by simp
qed

section \<open>NPC brain (services/npc\_brain.py, models/npc.py)\<close>

record NPCPersonality =
  cunning :: int
  loyalty :: int
  patience :: int
  pride :: int
  cruelty :: int
  compassion :: int
  courage :: int
  greed :: int
  honor :: int
  wisdom :: int

text \<open>
  \<open>NPCState\<close> and \<open>NPCRelationship\<close> of models/npc.py. Fields that no function of the
  brain reads (description, appearance, dialogue style, room and NPC identifiers of the
  relationship, timestamps, custom state) are left out.
\<close>

record NPCState =
  npc_id :: int
  code :: string
  name :: string
  apparent_role :: string
  true_role :: "string option"
  personality :: NPCPersonality
  secrets :: "string list"
  betrayal_threshold :: "int option"
  redemption_threshold :: "int option"
  is_major :: bool

record NPCRelationship =
  relationship_score :: int
  trust_level :: int
  known_secrets :: "string list"
  interactions_count :: int
  emotional_state :: string
  betrayal_triggered :: bool
  redemption_triggered :: bool

text \<open>
  \<open>NPCReaction\<close>, without the three fields of narration prose (\<open>dialogue_tone\<close>,
  \<open>dialogue_hints\<close>, \<open>behavior_notes\<close>), which are built from string tables and feed
  no other field.
\<close>

record NPCReaction =
  npc_code :: string
  npc_name :: string
  emotional_response :: string
  relationship_change :: int
  trust_change :: int
  reveals_secret :: "string option"
  triggers_betrayal :: bool
  triggers_redemption :: bool

text \<open>The two settings of config.py the brain reads, at their class defaults.\<close>

record Settings =
  betrayal_threshold_default :: int
  redemption_threshold_default :: int

definition settings :: Settings where
  "settings = \<lparr>betrayal_threshold_default = 30, redemption_threshold_default = 80\<rparr>"

text \<open>
  Python's \<open>x or d\<close> on an optional integer: \<open>None\<close> and \<open>0\<close> are both falsy, so
  both give \<open>d\<close>.
\<close>

definition py_or_int :: "int option \<Rightarrow> int \<Rightarrow> int" where
  "py_or_int x d = (case x of None \<Rightarrow> d | Some v \<Rightarrow> if v = 0 then d else v)"

text \<open>Truthiness of an optional string: \<open>None\<close> and the empty string are falsy.\<close>

definition py_truthy_str :: "string option \<Rightarrow> bool" where
  "py_truthy_str x = (case x of None \<Rightarrow> False | Some s \<Rightarrow> s \<noteq> [])"

definition TRAIT_REACTION_MODIFIERS :: "(string \<times> (string \<times> rat) list) list" where
  "TRAIT_REACTION_MODIFIERS =
    [(''cunning'', [(''deception'', 3 / 10), (''direct_attack'', - (1 / 10))]),
     (''loyalty'', [(''betrayal'', - (1 / 2)), (''kept_promise'', 3 / 10)]),
     (''compassion'', [(''helped_innocent'', 4 / 10), (''cruelty'', - (4 / 10))]),
     (''pride'', [(''disrespect'', - (4 / 10)), (''flattery'', 2 / 10)]),
     (''cruelty'', [(''mercy'', - (2 / 10)), (''ruthless'', 2 / 10)]),
     (''honor'', [(''kept_promise'', 3 / 10), (''betrayal'', - (4 / 10)), (''fair_fight'', 2 / 10)]),
     (''greed'', [(''bribe'', 3 / 10), (''generous'', - (1 / 10))])]"

definition EMOTIONAL_TRANSITIONS :: "(string \<times> (string \<times> string) list) list" where
  "EMOTIONAL_TRANSITIONS =
    [(''neutral'', [(''positive_action'', ''friendly''), (''negative_action'', ''suspicious''),
                    (''threat'', ''fearful''), (''kindness'', ''grateful'')]),
     (''friendly'', [(''positive_action'', ''friendly''), (''negative_action'', ''suspicious''),
                     (''betrayal'', ''hostile''), (''continued_kindness'', ''grateful'')]),
     (''suspicious'', [(''positive_action'', ''neutral''), (''continued_negative'', ''hostile''),
                       (''proof_of_innocence'', ''neutral'')]),
     (''hostile'', [(''positive_action'', ''suspicious''), (''major_kindness'', ''neutral''),
                    (''continued_aggression'', ''hostile'')]),
     (''grateful'', [(''continued_kindness'', ''grateful''), (''negative_action'', ''sad''),
                     (''betrayal'', ''hostile'')]),
     (''fearful'', [(''reassurance'', ''neutral''), (''continued_threat'', ''desperate''),
                    (''protection'', ''grateful'')])]"

definition get_base_reaction :: "string \<Rightarrow> (string \<times> string) list \<Rightarrow> int \<times> int" where
  "get_base_reaction action_type action_details =
     (let reactions =
        [(''friendly'', (5, 3)), (''helped'', (10, 8)), (''gift'', (8, 5)), (''defended'', (15, 12)),
         (''saved'', (25, 20)), (''trusted'', (5, 10)), (''honest'', (3, 8)), (''respected'', (5, 3)),
         (''hostile'', (- 5, - 5)), (''insulted'', (- 8, - 5)), (''threatened'', (- 10, - 15)),
         (''attacked'', (- 20, - 25)), (''lied'', (- 5, - 15)), (''stole'', (- 15, - 20)),
         (''betrayed'', (- 30, - 40)),
         (''neutral'', (0, 0)), (''professional'', (1, 2)), (''distant'', (- 2, - 1)),
         (''confrontation'', (- 5, 0)), (''seductive'', (5, - 2)), (''deceptive'', (0, - 10))]
      in case map_of reactions action_type of None \<Rightarrow> (0, 0) | Some r \<Rightarrow> r)"

text \<open>\<open>personality.model_dump()\<close>: the traits in field order.\<close>

definition model_dump :: "NPCPersonality \<Rightarrow> (string \<times> int) list" where
  "model_dump p =
    [(''cunning'', cunning p), (''loyalty'', loyalty p), (''patience'', patience p),
     (''pride'', pride p), (''cruelty'', cruelty p), (''compassion'', compassion p),
     (''courage'', courage p), (''greed'', greed p), (''honor'', honor p), (''wisdom'', wisdom p)]"

text \<open>
  The loop body of \<open>_apply_personality_modifiers\<close>; the float arithmetic
  (\<open>trait_value / 100\<close>, the modifier products and sums) is exact here.
\<close>

definition personality_step :: "string \<Rightarrow> rat \<times> rat \<Rightarrow> string \<times> int \<Rightarrow> rat \<times> rat" where
  "personality_step action_type acc tv =
     (case (acc, tv) of ((relation_modifier, trust_modifier), (trait, trait_value)) \<Rightarrow>
        (case map_of TRAIT_REACTION_MODIFIERS trait of
           None \<Rightarrow> (relation_modifier, trust_modifier)
         | Some trait_reactions \<Rightarrow>
             (case map_of trait_reactions action_type of
                None \<Rightarrow> (relation_modifier, trust_modifier)
              | Some m \<Rightarrow>
                  (let strength = of_int trait_value / 100;
                       modifier = m * strength
                   in (relation_modifier + modifier, trust_modifier + modifier * (8 / 10))))))"

definition apply_personality_modifiers ::
  "NPCPersonality \<Rightarrow> string \<Rightarrow> (string \<times> string) list \<Rightarrow> rat \<times> rat" where
  "apply_personality_modifiers p action_type action_details =
     foldl (personality_step action_type) (0, 0) (model_dump p)"

definition calculate_emotional_transition :: "string \<Rightarrow> string \<Rightarrow> int \<Rightarrow> string" where
  "calculate_emotional_transition current_state action_type relation_change =
     (let action_to_trigger =
        [(''friendly'', ''positive_action''), (''helped'', ''positive_action''),
         (''gift'', ''positive_action''), (''defended'', ''major_kindness''),
         (''saved'', ''major_kindness''), (''trusted'', ''positive_action''),
         (''hostile'', ''negative_action''), (''insulted'', ''negative_action''),
         (''threatened'', ''threat''), (''attacked'', ''continued_aggression''),
         (''lied'', ''negative_action''), (''betrayed'', ''betrayal'')];
          trigger = (case map_of action_to_trigger action_type of
                       Some t \<Rightarrow> Some t
                     | None \<Rightarrow>
                         if relation_change > 5 then Some ''positive_action''
                         else if relation_change < - 5 then Some ''negative_action''
                         else None)
      in case trigger of
           None \<Rightarrow> current_state
         | Some t \<Rightarrow>
             (case map_of EMOTIONAL_TRANSITIONS current_state of
                None \<Rightarrow> current_state
              | Some transitions \<Rightarrow>
                  (case map_of transitions t of None \<Rightarrow> current_state | Some st \<Rightarrow> st)))"

definition check_secret_reveal ::
  "NPCState \<Rightarrow> NPCRelationship \<Rightarrow> string \<Rightarrow> int \<Rightarrow> string option" where
  "check_secret_reveal npc relationship action_type relation_change =
     (if secrets npc = [] then None
      else
        let unknown = filter (\<lambda>s. s \<notin> set (known_secrets relationship)) (secrets npc) in
        (case unknown of
           [] \<Rightarrow> None
         | first_unknown # _ \<Rightarrow>
             (let new_trust = trust_level relationship + relation_change in
              if new_trust \<ge> 80 \<and> action_type \<in> set [''saved'', ''defended'', ''trusted'']
              then Some first_unknown
              else if new_trust \<ge> 70 \<and> interactions_count relationship \<ge> 5
                      \<and> action_type \<in> set [''friendly'', ''helped'', ''honest'']
              then Some first_unknown
              else None)))"

definition check_betrayal_trigger :: "NPCState \<Rightarrow> NPCRelationship \<Rightarrow> int \<Rightarrow> bool" where
  "check_betrayal_trigger npc relationship relation_change =
     (if betrayal_triggered relationship then False
      else if (if \<not> py_truthy_str (true_role npc) then True
               else true_role npc = Some (apparent_role npc)) then False
      else
        let threshold = py_or_int (betrayal_threshold npc) (betrayal_threshold_default settings);
            new_relationship = relationship_score relationship + relation_change
        in if new_relationship < threshold then True else False)"

definition check_redemption_trigger :: "NPCState \<Rightarrow> NPCRelationship \<Rightarrow> int \<Rightarrow> bool" where
  "check_redemption_trigger npc relationship relation_change =
     (if redemption_triggered relationship then False
      else if (if \<not> py_truthy_str (true_role npc) then True
               else true_role npc = Some (apparent_role npc)) then False
      else
        let threshold = py_or_int (redemption_threshold npc) (redemption_threshold_default settings);
            new_relationship = relationship_score relationship + relation_change
        in if new_relationship \<ge> threshold then True else False)"

definition calculate_reaction ::
  "NPCState \<Rightarrow> NPCRelationship \<Rightarrow> string \<Rightarrow> string \<Rightarrow> (string \<times> string) list \<Rightarrow> NPCReaction" where
  "calculate_reaction npc relationship player_action action_type action_details =
     (let (base_relation_change, base_trust_change) = get_base_reaction action_type action_details;
          (relation_modifier, trust_modifier) =
             apply_personality_modifiers (personality npc) action_type action_details;
          final_relation_change = py_int (of_int base_relation_change * (1 + relation_modifier));
          final_trust_change = py_int (of_int base_trust_change * (1 + trust_modifier));
          new_emotional_state =
             calculate_emotional_transition (emotional_state relationship) action_type final_relation_change;
          reveals = check_secret_reveal npc relationship action_type final_relation_change;
          betrays = check_betrayal_trigger npc relationship final_relation_change;
          redeems = check_redemption_trigger npc relationship final_relation_change
      in \<lparr>npc_code = code npc, npc_name = name npc,
          emotional_response = new_emotional_state,
          relationship_change = final_relation_change,
          trust_change = final_trust_change,
          reveals_secret = reveals,
          triggers_betrayal = betrays,
          triggers_redemption = redeems\<rparr>)"

text \<open>
  The caller of \<open>calculate_reaction\<close> (main.py, the NPC reaction endpoint) writes the
  reaction back into the relationship: scores are replaced by the projected values, a
  revealed secret is appended, the interaction is counted, and a trigger flag is written
  only when the reaction fired it (\<open>reaction.triggers_betrayal or None\<close>), so a flag once
  set stays set.
\<close>

definition persist_reaction :: "NPCRelationship \<Rightarrow> NPCReaction \<Rightarrow> NPCRelationship" where
  "persist_reaction relationship reaction =
     relationship\<lparr>
       relationship_score := relationship_score relationship + relationship_change reaction,
       trust_level := trust_level relationship + trust_change reaction,
       emotional_state := emotional_response reaction,
       known_secrets := (case reveals_secret reaction of
                           None \<Rightarrow> known_secrets relationship
                         | Some s \<Rightarrow> if s = [] then known_secrets relationship
                                     else known_secrets relationship @ [s]),
       interactions_count := interactions_count relationship + 1,
       betrayal_triggered := (if triggers_betrayal reaction then True
                              else betrayal_triggered relationship),
       redemption_triggered := (if triggers_redemption reaction then True
                                else redemption_triggered relationship)\<rparr>"

text \<open>
  A sequence of reactions on one relationship: each call sees the relationship as the
  previous call's reaction left it. The NPC definition and the action may change from
  call to call.
\<close>

fun reactions_over ::
  "NPCRelationship \<Rightarrow> (NPCState \<times> string \<times> (string \<times> string) list) list \<Rightarrow> NPCReaction list" where
  "reactions_over relationship [] = []"
| "reactions_over relationship ((npc, action_type, action_details) # rest) =
     (let reaction = calculate_reaction npc relationship [] action_type action_details
      in reaction # reactions_over (persist_reaction relationship reaction) rest)"


subsection \<open>Betrayal trigger\<close>

lemma check_betrayal_trigger_iff:
  "check_betrayal_trigger npc relationship relation_change =
     (\<not> betrayal_triggered relationship
      \<and> py_truthy_str (true_role npc) \<and> true_role npc \<noteq> Some (apparent_role npc)
      \<and> relationship_score relationship + relation_change
          < py_or_int (betrayal_threshold npc) 30)"
  by (simp add: check_betrayal_trigger_def settings_def Let_def)

lemma check_redemption_trigger_iff:
  "check_redemption_trigger npc relationship relation_change =
     (\<not> redemption_triggered relationship
      \<and> py_truthy_str (true_role npc) \<and> true_role npc \<noteq> Some (apparent_role npc)
      \<and> relationship_score relationship + relation_change
          \<ge> py_or_int (redemption_threshold npc) 80)"
  by (simp add: check_redemption_trigger_def settings_def Let_def)

text \<open>
  With a threshold that is configured and not zero, or with none configured, the trigger
  is exactly the condition of claim C7; the scenario of the claim (score 85, delta -60,
  no threshold configured) fires.
\<close>

lemma check_betrayal_trigger_nonzero_threshold:
  assumes "betrayal_threshold npc \<noteq> Some 0"
  shows "check_betrayal_trigger npc relationship relation_change =
     (\<not> betrayal_triggered relationship
      \<and> py_truthy_str (true_role npc) \<and> true_role npc \<noteq> Some (apparent_role npc)
      \<and> relationship_score relationship + relation_change
          < (case betrayal_threshold npc of None \<Rightarrow> 30 | Some t \<Rightarrow> t))"
  using assms by (auto simp: check_betrayal_trigger_iff py_or_int_def split: option.splits)

definition merchant_traitor :: "int option \<Rightarrow> int option \<Rightarrow> NPCState" where
  "merchant_traitor bt rt =
     \<lparr>npc_id = 1, code = ''varen'', name = ''Lord Varen'', apparent_role = ''merchant'',
      true_role = Some ''traitor'',
      personality = \<lparr>cunning = 50, loyalty = 50, patience = 50, pride = 50, cruelty = 50,
                      compassion = 50, courage = 50, greed = 50, honor = 50, wisdom = 50\<rparr>,
      secrets = [], betrayal_threshold = bt, redemption_threshold = rt, is_major = False\<rparr>"

definition relationship_at :: "int \<Rightarrow> int \<Rightarrow> NPCRelationship" where
  "relationship_at score trust =
     \<lparr>relationship_score = score, trust_level = trust, known_secrets = [],
      interactions_count = 0, emotional_state = ''neutral'',
      betrayal_triggered = False, redemption_triggered = False\<rparr>"

lemma betrayal_scenario_85_minus_60:
  "check_betrayal_trigger (merchant_traitor None None) (relationship_at 85 75) (- 60)"
  by (simp add: check_betrayal_trigger_iff merchant_traitor_def relationship_at_def
      py_truthy_str_def py_or_int_def)

text \<open>
  Claim C7, at the input where the code departs from it. The NPC's betrayal threshold is
  configured as 0, the relationship score is 20 and the delta is 0: the projected
  relationship 20 is not below the configured threshold 0, yet the trigger fires, because
  \<open>npc.betrayal_threshold or settings.betrayal_threshold_default\<close> takes a configured 0
  for "not configured" and compares against the default 30.
\<close>

theorem betrayal_threshold_zero_is_replaced_by_default:
  "check_betrayal_trigger (merchant_traitor (Some 0) None) (relationship_at 20 50) 0
   \<and> betrayal_threshold (merchant_traitor (Some 0) None) = Some 0
   \<and> \<not> relationship_score (relationship_at 20 50) + 0 < (0::int)
   \<and> \<not> betrayal_triggered (relationship_at 20 50)
   \<and> true_role (merchant_traitor (Some 0) None) = Some ''traitor''
   \<and> apparent_role (merchant_traitor (Some 0) None) = ''merchant''"
  by (simp add: check_betrayal_trigger_iff merchant_traitor_def relationship_at_def
      py_truthy_str_def py_or_int_def)

subsection \<open>Betrayal and redemption together\<close>

lemma triggers_of_calculate_reaction:
  "triggers_betrayal (calculate_reaction npc relationship pa action_type details) =
     check_betrayal_trigger npc relationship
       (relationship_change (calculate_reaction npc relationship pa action_type details))"
  "triggers_redemption (calculate_reaction npc relationship pa action_type details) =
     check_redemption_trigger npc relationship
       (relationship_change (calculate_reaction npc relationship pa action_type details))"
  by (simp_all add: calculate_reaction_def Let_def split: prod.splits)

lemma persist_keeps_flags:
  "betrayal_triggered relationship \<Longrightarrow> betrayal_triggered (persist_reaction relationship reaction)"
  "redemption_triggered relationship \<Longrightarrow> redemption_triggered (persist_reaction relationship reaction)"
  "triggers_betrayal reaction \<Longrightarrow> betrayal_triggered (persist_reaction relationship reaction)"
  "triggers_redemption reaction \<Longrightarrow> redemption_triggered (persist_reaction relationship reaction)"
  by (simp_all add: persist_reaction_def)

lemma no_betrayal_after_flag:
  "betrayal_triggered relationship \<Longrightarrow> filter triggers_betrayal (reactions_over relationship inputs) = []"
proof (induction inputs arbitrary: relationship)
  case Nil
  then show ?case by simp
next
  case (Cons i inputs)
  obtain npc action_type details where i: "i = (npc, action_type, details)"
    by (cases i) auto
  have "\<not> triggers_betrayal (calculate_reaction npc relationship [] action_type details)"
    using Cons.prems by (simp add: triggers_of_calculate_reaction check_betrayal_trigger_iff)
  then show ?case
    using Cons.IH [OF persist_keeps_flags(1) [OF Cons.prems]] by (simp add: i Let_def)
qed

lemma no_redemption_after_flag:
  "redemption_triggered relationship \<Longrightarrow> filter triggers_redemption (reactions_over relationship inputs) = []"
proof (induction inputs arbitrary: relationship)
  case Nil
  then show ?case by simp
next
  case (Cons i inputs)
  obtain npc action_type details where i: "i = (npc, action_type, details)"
    by (cases i) auto
  have "\<not> triggers_redemption (calculate_reaction npc relationship [] action_type details)"
    using Cons.prems by (simp add: triggers_of_calculate_reaction check_redemption_trigger_iff)
  then show ?case
    using Cons.IH [OF persist_keeps_flags(2) [OF Cons.prems]] by (simp add: i Let_def)
qed

lemma betrayal_at_most_once:
  "length (filter triggers_betrayal (reactions_over relationship inputs)) \<le> 1"
proof (induction inputs arbitrary: relationship)
  case Nil
  then show ?case by simp
next
  case (Cons i inputs)
  obtain npc action_type details where i: "i = (npc, action_type, details)"
    by (cases i) auto
  let ?r = "calculate_reaction npc relationship [] action_type details"
  show ?case
  proof (cases "triggers_betrayal ?r")
    case True
    then have "filter triggers_betrayal (reactions_over (persist_reaction relationship ?r) inputs) = []"
      by (intro no_betrayal_after_flag persist_keeps_flags(3))
    with True show ?thesis by (simp add: i Let_def)
  next
    case False
    then show ?thesis using Cons.IH by (simp add: i Let_def)
  qed
qed

lemma redemption_at_most_once:
  "length (filter triggers_redemption (reactions_over relationship inputs)) \<le> 1"
proof (induction inputs arbitrary: relationship)
  case Nil
  then show ?case by simp
next
  case (Cons i inputs)
  obtain npc action_type details where i: "i = (npc, action_type, details)"
    by (cases i) auto
  let ?r = "calculate_reaction npc relationship [] action_type details"
  show ?case
  proof (cases "triggers_redemption ?r")
    case True
    then have "filter triggers_redemption (reactions_over (persist_reaction relationship ?r) inputs) = []"
      by (intro no_redemption_after_flag persist_keeps_flags(4))
    with True show ?thesis by (simp add: i Let_def)
  next
    case False
    then show ?thesis using Cons.IH by (simp add: i Let_def)
  qed
qed

lemma neutral_action_changes_nothing:
  "relationship_change (calculate_reaction npc relationship pa ''neutral'' details) = 0"
  by (simp add: calculate_reaction_def get_base_reaction_def py_int_def Let_def split: prod.splits)

text \<open>
  Claim C3 as stated fails, in both of its parts. In one reaction: an NPC whose
  redemption threshold is configured below its betrayal threshold (here redemption 20,
  betrayal at the default 30) and whose projected relationship lies between the two (25)
  gets both triggers at once. Over a sequence, with both thresholds at their defaults:
  from score 50 a \<open>betrayed\<close> action projects 20 and fires betrayal, and after three
  \<open>saved\<close> actions the projected score 95 fires redemption on the same relationship,
  whose betrayal flag is set.
\<close>

theorem triggers_not_mutually_exclusive:
  "triggers_betrayal (calculate_reaction (merchant_traitor None (Some 20)) (relationship_at 25 50)
      [] ''neutral'' [])
   \<and> triggers_redemption (calculate_reaction (merchant_traitor None (Some 20)) (relationship_at 25 50)
      [] ''neutral'' [])
   \<and> map triggers_betrayal (reactions_over (relationship_at 50 50)
        [(merchant_traitor None None, ''betrayed'', []), (merchant_traitor None None, ''saved'', []),
         (merchant_traitor None None, ''saved'', []), (merchant_traitor None None, ''saved'', [])])
       = [True, False, False, False]
   \<and> map triggers_redemption (reactions_over (relationship_at 50 50)
        [(merchant_traitor None None, ''betrayed'', []), (merchant_traitor None None, ''saved'', []),
         (merchant_traitor None None, ''saved'', []), (merchant_traitor None None, ''saved'', [])])
       = [False, False, False, True]"
  by code_simp

text \<open>
  Claim C3, amended. Take an NPC neither of whose thresholds is configured as 0, and
  read each threshold as the configured value, or the default (30 for betrayal, 80 for
  redemption) when none is configured. When the betrayal threshold does not exceed the
  redemption threshold, as with the defaults, no reaction has both triggers. Over any
  sequence of reactions on one relationship whose flags the caller persists, the betrayal
  trigger fires at most once and the redemption trigger fires at most once.
\<close>

theorem triggers_exclusive_when_thresholds_ordered_and_one_shot:
  "(betrayal_threshold npc \<noteq> Some 0 \<and> redemption_threshold npc \<noteq> Some 0
      \<and> (case betrayal_threshold npc of None \<Rightarrow> 30 | Some t \<Rightarrow> t)
          \<le> (case redemption_threshold npc of None \<Rightarrow> 80 | Some t \<Rightarrow> t) \<longrightarrow>
      \<not> (triggers_betrayal (calculate_reaction npc relationship pa action_type details)
         \<and> triggers_redemption (calculate_reaction npc relationship pa action_type details)))
   \<and> length (filter triggers_betrayal (reactions_over relationship0 inputs)) \<le> 1
   \<and> length (filter triggers_redemption (reactions_over relationship0 inputs)) \<le> 1"
proof (intro conjI impI)
  assume "betrayal_threshold npc \<noteq> Some 0 \<and> redemption_threshold npc \<noteq> Some 0
      \<and> (case betrayal_threshold npc of None \<Rightarrow> 30 | Some t \<Rightarrow> t)
          \<le> (case redemption_threshold npc of None \<Rightarrow> 80 | Some t \<Rightarrow> (t :: int))"
  then have "py_or_int (betrayal_threshold npc) 30 \<le> py_or_int (redemption_threshold npc) 80"
    by (auto simp: py_or_int_def split: option.splits)
  then show "\<not> (triggers_betrayal (calculate_reaction npc relationship pa action_type details)
         \<and> triggers_redemption (calculate_reaction npc relationship pa action_type details))"
    by (auto simp: triggers_of_calculate_reaction check_betrayal_trigger_iff
        check_redemption_trigger_iff)
next
  show "length (filter triggers_betrayal (reactions_over relationship0 inputs)) \<le> 1"
    by (rule betrayal_at_most_once)
next
  show "length (filter triggers_redemption (reactions_over relationship0 inputs)) \<le> 1"
    by (rule redemption_at_most_once)
qed

theorem triggers_exclusive_witness:
  "betrayal_threshold (merchant_traitor (Some 40) None) \<noteq> Some 0
   \<and> redemption_threshold (merchant_traitor (Some 40) None) \<noteq> Some 0
   \<and> (case betrayal_threshold (merchant_traitor (Some 40) None) of None \<Rightarrow> 30 | Some t \<Rightarrow> t)
        \<le> (case redemption_threshold (merchant_traitor (Some 40) None) of None \<Rightarrow> 80 | Some t \<Rightarrow> t)
   \<and> \<not> (triggers_betrayal (calculate_reaction (merchant_traitor (Some 40) None) (relationship_at 85 75) [] ''betrayed'' [])
         \<and> triggers_redemption (calculate_reaction (merchant_traitor (Some 40) None) (relationship_at 85 75) [] ''betrayed'' []))
   \<and> length (filter triggers_betrayal (reactions_over (relationship_at 85 75)
        [(merchant_traitor (Some 40) None, ''betrayed'', []), (merchant_traitor (Some 40) None, ''betrayed'', []),
         (merchant_traitor (Some 40) None, ''betrayed'', [])])) \<le> 1"
proof -
  have h: "betrayal_threshold (merchant_traitor (Some 40) None) \<noteq> Some 0
     \<and> redemption_threshold (merchant_traitor (Some 40) None) \<noteq> Some 0
     \<and> (case betrayal_threshold (merchant_traitor (Some 40) None) of None \<Rightarrow> 30 | Some t \<Rightarrow> t)
        \<le> (case redemption_threshold (merchant_traitor (Some 40) None) of None \<Rightarrow> 80 | Some t \<Rightarrow> t)"
    by (simp add: merchant_traitor_def)
  show ?thesis
    using h triggers_exclusive_when_thresholds_ordered_and_one_shot
      [of "merchant_traitor (Some 40) None" "relationship_at 85 75" "[]" "''betrayed''" "[]"
          "relationship_at 85 75"
          "[(merchant_traitor (Some 40) None, ''betrayed'', []), (merchant_traitor (Some 40) None, ''betrayed'', []),
            (merchant_traitor (Some 40) None, ''betrayed'', [])]"]
    by blast
qed

section \<open>Story state and dynamically typed values\<close>

text \<open>
  Story flags are \<open>Dict[str, Any]\<close>. The values modelled are \<open>None\<close>, booleans, integers
  and strings, with Python's truthiness; a missing key reads as \<open>None\<close>.
\<close>

datatype pyval = PNone | PBool bool | PInt int | PStr string

fun py_truthy :: "pyval \<Rightarrow> bool" where
  "py_truthy PNone = False"
| "py_truthy (PBool b) = b"
| "py_truthy (PInt i) = (i \<noteq> 0)"
| "py_truthy (PStr s) = (s \<noteq> [])"

definition dict_get :: "(string \<times> pyval) list \<Rightarrow> string \<Rightarrow> pyval" where
  "dict_get d k = (case map_of d k of None \<Rightarrow> PNone | Some v \<Rightarrow> v)"

text \<open>
  The story-state dictionary the scheduler reads; a field is \<open>None\<close> when the key is
  absent, and each reader applies its own default.
\<close>

record story_state =
  state_current_act :: "int option"
  state_revealed_clues :: "string list option"
  state_story_flags :: "(string \<times> pyval) list option"
  state_tension_level :: "string option"

section \<open>Twist engine (services/twist\_engine.py)\<close>

text \<open>A foreshadowing element is a dictionary with the keys the engine reads.\<close>

record foreshadowing_element =
  el_scene_type :: "string option"
  el_id :: "string option"
  el_subtle_hint :: "string option"
  el_npc :: "string option"

record Twist =
  twist_id :: string
  title :: string
  description :: string
  revelation_text :: string
  required_clues :: "string list"
  min_clues_for_reveal :: int
  required_flags :: "string list"
  required_act :: int
  foreshadowing_elements :: "foreshadowing_element list"
  related_npcs :: "string list"
  related_decisions :: "string list"
  priority :: int
  affects_ending :: bool

record RedHerring =
  herring_id :: string
  herring_description :: string
  false_conclusion :: string
  real_truth :: string
  deploy_after_clue :: "string option"
  deploy_in_act :: "int option"
  revelation_trigger :: "string option"

text \<open>
  The engine's registries. The two dictionaries keep insertion order, as Python's do;
  \<open>foreshadowed\<close> maps a key to a count.
\<close>

record TwistEngine =
  twists :: "(string \<times> Twist) list"
  red_herrings :: "(string \<times> RedHerring) list"
  revealed_twists :: "string set"
  deployed_herrings :: "string set"
  foreshadowed :: "(string \<times> int) list"

definition TwistEngine_init :: TwistEngine where
  "TwistEngine_init = \<lparr>twists = [], red_herrings = [], revealed_twists = {},
     deployed_herrings = {}, foreshadowed = []\<rparr>"

definition register_twist :: "Twist \<Rightarrow> TwistEngine \<Rightarrow> TwistEngine" where
  "register_twist twist e = e\<lparr>twists := AList.update (twist_id twist) twist (twists e)\<rparr>"

definition register_red_herring :: "RedHerring \<Rightarrow> TwistEngine \<Rightarrow> TwistEngine" where
  "register_red_herring herring e =
     e\<lparr>red_herrings := AList.update (herring_id herring) herring (red_herrings e)\<rparr>"

definition record_foreshadowing :: "string \<Rightarrow> TwistEngine \<Rightarrow> TwistEngine" where
  "record_foreshadowing tid e =
     e\<lparr>foreshadowed := AList.update tid
        ((case map_of (foreshadowed e) tid of None \<Rightarrow> 0 | Some n \<Rightarrow> n) + 1) (foreshadowed e)\<rparr>"

definition mark_revealed :: "string \<Rightarrow> TwistEngine \<Rightarrow> TwistEngine" where
  "mark_revealed tid e = e\<lparr>revealed_twists := insert tid (revealed_twists e)\<rparr>"

definition mark_herring_deployed :: "string \<Rightarrow> TwistEngine \<Rightarrow> TwistEngine" where
  "mark_herring_deployed hid e = e\<lparr>deployed_herrings := insert hid (deployed_herrings e)\<rparr>"

text \<open>\<open>len(set(twist.required_clues) & state_revealed_clues)\<close>.\<close>

definition clues_found_count :: "Twist \<Rightarrow> string list \<Rightarrow> int" where
  "clues_found_count twist revealed =
     int (length (remdups (filter (\<lambda>c. c \<in> set revealed) (required_clues twist))))"

text \<open>The readiness score; its float arithmetic is exact here.\<close>

definition calculate_readiness :: "TwistEngine \<Rightarrow> Twist \<Rightarrow> int \<Rightarrow> story_state \<Rightarrow> string \<Rightarrow> rat" where
  "calculate_readiness e twist clues_found st tension =
     (let score = 0;
          score = (if required_clues twist \<noteq> []
                   then score + (of_int clues_found / of_nat (length (required_clues twist))) * (4 / 10)
                   else score + 3 / 10);
          foreshadow_count = (case map_of (foreshadowed e) (twist_id twist) of None \<Rightarrow> 0 | Some n \<Rightarrow> n);
          foreshadow_score = min (of_int foreshadow_count / 3) 1 * (2 / 10);
          score = score + foreshadow_score;
          tension_bonuses = [(''low'', 0), (''normal'', 5 / 100), (''high'', 15 / 100), (''critical'', 2 / 10)];
          score = score + (case map_of tension_bonuses tension of None \<Rightarrow> 5 / 100 | Some b \<Rightarrow> b);
          act = (case state_current_act st of None \<Rightarrow> 1 | Some a \<Rightarrow> a);
          score = (if act > required_act twist
                   then score + min (of_int (act - required_act twist) * (1 / 10)) (2 / 10)
                   else score)
      in score)"

text \<open>
  One iteration of the loop of \<open>check_revelation_timing\<close>: the candidate the twist
  contributes, if any.
\<close>

definition revelation_candidate ::
  "TwistEngine \<Rightarrow> story_state \<Rightarrow> string \<times> Twist \<Rightarrow> (Twist \<times> rat) list" where
  "revelation_candidate e st kt =
     (case kt of (tid, twist) \<Rightarrow>
      let act = (case state_current_act st of None \<Rightarrow> 1 | Some a \<Rightarrow> a);
          revealed = (case state_revealed_clues st of None \<Rightarrow> [] | Some cs \<Rightarrow> cs);
          flags = (case state_story_flags st of None \<Rightarrow> [] | Some fs \<Rightarrow> fs);
          tension = (case state_tension_level st of None \<Rightarrow> ''normal'' | Some t \<Rightarrow> t)
      in if tid \<in> revealed_twists e then []
         else if act < required_act twist then []
         else if required_flags twist \<noteq> []
                 \<and> \<not> list_all (\<lambda>f. py_truthy (dict_get flags f)) (required_flags twist) then []
         else
           let clues_found = clues_found_count twist revealed in
           if clues_found < min_clues_for_reveal twist then []
           else
             let readiness = calculate_readiness e twist clues_found st tension in
             if readiness \<ge> 7 / 10 then [(twist, readiness)] else [])"

text \<open>
  \<open>candidates.sort(key=..., reverse=True)\<close> is a stable descending sort; the first
  element is returned.
\<close>

definition check_revelation_timing :: "TwistEngine \<Rightarrow> story_state \<Rightarrow> Twist option" where
  "check_revelation_timing e st =
     (let candidates = concat (map (revelation_candidate e st) (twists e)) in
      case sort_key (\<lambda>c. - snd c) candidates of
        [] \<Rightarrow> None
      | best # _ \<Rightarrow> Some (fst best))"

record hint =
  hint_twist_id :: string
  hint_text :: string
  hint_priority :: int
  hint_npc :: "string option"
  hint_type :: string

definition element_hints ::
  "TwistEngine \<Rightarrow> string list \<Rightarrow> string \<Rightarrow> string \<Rightarrow> Twist \<Rightarrow> foreshadowing_element \<Rightarrow> hint list" where
  "element_hints e revealed scene_type tid twist element =
     (if el_scene_type element = Some scene_type \<or> \<not> py_truthy_str (el_scene_type element)
      then
        let element_id = tid @ ''_'' @ (case el_id element of None \<Rightarrow> ''default'' | Some i \<Rightarrow> i) in
        if element_id \<in> fst ` set (foreshadowed e) then []
        else
          let clues_found = clues_found_count twist revealed;
              total_clues = (if required_clues twist = [] then 1 else int (length (required_clues twist)));
              progress = (of_int clues_found / of_int total_clues :: rat)
          in [\<lparr>hint_twist_id = tid,
               hint_text = (case el_subtle_hint element of None \<Rightarrow> [] | Some h \<Rightarrow> h),
               hint_priority = py_int (of_int (priority twist) * (1 / 2 + progress * (1 / 2))),
               hint_npc = el_npc element,
               hint_type = ''foreshadow''\<rparr>]
      else [])"

definition twist_hints ::
  "TwistEngine \<Rightarrow> story_state \<Rightarrow> string \<Rightarrow> string \<times> Twist \<Rightarrow> hint list" where
  "twist_hints e st scene_type kt =
     (case kt of (tid, twist) \<Rightarrow>
      let act = (case state_current_act st of None \<Rightarrow> 1 | Some a \<Rightarrow> a);
          revealed = (case state_revealed_clues st of None \<Rightarrow> [] | Some cs \<Rightarrow> cs)
      in if tid \<in> revealed_twists e then []
         else if required_act twist > act + 2 then []
         else concat (map (element_hints e revealed scene_type tid twist) (foreshadowing_elements twist)))"

definition generate_foreshadowing :: "TwistEngine \<Rightarrow> story_state \<Rightarrow> string \<Rightarrow> hint list" where
  "generate_foreshadowing e st scene_type =
     (let hints = concat (map (twist_hints e st scene_type) (twists e)) in
      take 3 (sort_key (\<lambda>h. - hint_priority h) hints))"

definition herring_to_deploy :: "TwistEngine \<Rightarrow> story_state \<Rightarrow> string \<times> RedHerring \<Rightarrow> RedHerring list" where
  "herring_to_deploy e st kh =
     (case kh of (hid, herring) \<Rightarrow>
      let revealed = (case state_revealed_clues st of None \<Rightarrow> [] | Some cs \<Rightarrow> cs);
          act = (case state_current_act st of None \<Rightarrow> 1 | Some a \<Rightarrow> a)
      in if hid \<in> deployed_herrings e then []
         else if (case deploy_after_clue herring of
                    None \<Rightarrow> False
                  | Some c \<Rightarrow> c \<noteq> [] \<and> c \<in> set revealed) then [herring]
         else (case deploy_in_act herring of
                 None \<Rightarrow> []
               | Some a \<Rightarrow> if a \<noteq> 0 \<and> act \<ge> a then [herring] else []))"

definition check_red_herring_deployment :: "TwistEngine \<Rightarrow> story_state \<Rightarrow> RedHerring list" where
  "check_red_herring_deployment e st = concat (map (herring_to_deploy e st) (red_herrings e))"

text \<open>
  The calls that change a registry. The queries above change nothing, so a sequence of
  scheduler calls is a sequence of these, with queries asked in between.
\<close>

datatype twist_call =
    RegisterTwist Twist
  | RegisterRedHerring RedHerring
  | RecordForeshadowing string
  | MarkRevealed string
  | MarkHerringDeployed string

fun apply_call :: "TwistEngine \<Rightarrow> twist_call \<Rightarrow> TwistEngine" where
  "apply_call e (RegisterTwist t) = register_twist t e"
| "apply_call e (RegisterRedHerring h) = register_red_herring h e"
| "apply_call e (RecordForeshadowing tid) = record_foreshadowing tid e"
| "apply_call e (MarkRevealed tid) = mark_revealed tid e"
| "apply_call e (MarkHerringDeployed hid) = mark_herring_deployed hid e"

definition apply_calls :: "TwistEngine \<Rightarrow> twist_call list \<Rightarrow> TwistEngine" where
  "apply_calls e calls = foldl apply_call e calls"


subsection \<open>Registry keys and one-shot marks\<close>

definition keys_match :: "TwistEngine \<Rightarrow> bool" where
  "keys_match e = (list_all (\<lambda>kt. twist_id (snd kt) = fst kt) (twists e)
     \<and> list_all (\<lambda>kh. herring_id (snd kh) = fst kh) (red_herrings e))"

lemma list_all_update:
  "list_all P al \<Longrightarrow> P (k, v) \<Longrightarrow> list_all P (AList.update k v al)"
  by (induction al) auto

lemma keys_match_init: "keys_match TwistEngine_init"
  by (simp add: keys_match_def TwistEngine_init_def)

lemma keys_match_apply_call: "keys_match e \<Longrightarrow> keys_match (apply_call e c)"
  by (cases c)
    (simp_all add: keys_match_def register_twist_def register_red_herring_def
      record_foreshadowing_def mark_revealed_def mark_herring_deployed_def list_all_update)

lemma keys_match_apply_calls: "keys_match e \<Longrightarrow> keys_match (apply_calls e calls)"
  unfolding apply_calls_def
  by (induction calls arbitrary: e) (simp_all add: keys_match_apply_call)

lemma revealed_apply_call: "tid \<in> revealed_twists e \<Longrightarrow> tid \<in> revealed_twists (apply_call e c)"
  by (cases c)
    (simp_all add: register_twist_def register_red_herring_def
      record_foreshadowing_def mark_revealed_def mark_herring_deployed_def)

lemma revealed_apply_calls: "tid \<in> revealed_twists e \<Longrightarrow> tid \<in> revealed_twists (apply_calls e calls)"
  unfolding apply_calls_def
  by (induction calls arbitrary: e) (simp_all add: revealed_apply_call)

lemma deployed_apply_call: "hid \<in> deployed_herrings e \<Longrightarrow> hid \<in> deployed_herrings (apply_call e c)"
  by (cases c)
    (simp_all add: register_twist_def register_red_herring_def
      record_foreshadowing_def mark_revealed_def mark_herring_deployed_def)

lemma deployed_apply_calls: "hid \<in> deployed_herrings e \<Longrightarrow> hid \<in> deployed_herrings (apply_calls e calls)"
  unfolding apply_calls_def
  by (induction calls arbitrary: e) (simp_all add: deployed_apply_call)

lemma revelation_candidate_unrevealed:
  "c \<in> set (revelation_candidate e st (tid, twist)) \<Longrightarrow> fst c = twist \<and> tid \<notin> revealed_twists e"
  by (auto simp: revelation_candidate_def Let_def split: if_splits)

lemma check_revelation_timing_unrevealed:
  assumes "check_revelation_timing e st = Some t"
  shows "\<exists>tid. (tid, t) \<in> set (twists e) \<and> tid \<notin> revealed_twists e"
proof -
  let ?cands = "concat (map (revelation_candidate e st) (twists e))"
  obtain best rest where b: "sort_key (\<lambda>c. - snd c) ?cands = best # rest" and t: "t = fst best"
    using assms by (auto simp: check_revelation_timing_def Let_def split: list.splits)
  have "best \<in> set (sort_key (\<lambda>c. - snd c) ?cands)"
    by (simp add: b)
  then have "best \<in> set ?cands"
    by (simp only: set_sort)
  then obtain tid twist where kt: "(tid, twist) \<in> set (twists e)"
      and c: "best \<in> set (revelation_candidate e st (tid, twist))"
    by auto
  from revelation_candidate_unrevealed [OF c] kt t show ?thesis
    by auto
qed

lemma herring_to_deploy_undeployed:
  "h \<in> set (herring_to_deploy e st (hid, herring)) \<Longrightarrow> h = herring \<and> hid \<notin> deployed_herrings e"
  by (auto simp: herring_to_deploy_def Let_def split: if_splits option.splits)

lemma check_red_herring_deployment_undeployed:
  assumes "h \<in> set (check_red_herring_deployment e st)"
  shows "\<exists>hid. (hid, h) \<in> set (red_herrings e) \<and> hid \<notin> deployed_herrings e"
proof -
  from assms obtain hid herring where kh: "(hid, herring) \<in> set (red_herrings e)"
      and c: "h \<in> set (herring_to_deploy e st (hid, herring))"
    by (auto simp: check_red_herring_deployment_def)
  from herring_to_deploy_undeployed [OF c] kh show ?thesis
    by auto
qed

lemma keys_match_twist: "keys_match e \<Longrightarrow> (tid, t) \<in> set (twists e) \<Longrightarrow> twist_id t = tid"
  by (auto simp: keys_match_def list_all_iff)

lemma keys_match_herring: "keys_match e \<Longrightarrow> (hid, h) \<in> set (red_herrings e) \<Longrightarrow> herring_id h = hid"
  by (auto simp: keys_match_def list_all_iff)

text \<open>
  Claim C5. Take any campaign registry, built from the empty engine by any sequence of
  calls. Once \<open>mark_revealed\<close> has been called for a twist identifier (in particular the
  identifier of a twist that \<open>check_revelation_timing\<close> returned), then after any further
  sequence of calls and for any story state, \<open>check_revelation_timing\<close> does not return
  a twist with that identifier. Once \<open>mark_herring_deployed\<close> has been called for a red
  herring identifier, no later \<open>check_red_herring_deployment\<close> includes a herring with
  that identifier.
\<close>

theorem revealed_twist_and_deployed_herring_never_return:
  "(check_revelation_timing
      (apply_calls (mark_revealed tid (apply_calls TwistEngine_init before)) later) st = Some t
      \<longrightarrow> twist_id t \<noteq> tid)
   \<and> (h \<in> set (check_red_herring_deployment
      (apply_calls (mark_herring_deployed hid (apply_calls TwistEngine_init before)) later) st)
      \<longrightarrow> herring_id h \<noteq> hid)"
proof (intro conjI impI)
  let ?e = "apply_calls (mark_revealed tid (apply_calls TwistEngine_init before)) later"
  assume "check_revelation_timing ?e st = Some t"
  then obtain k where k: "(k, t) \<in> set (twists ?e)" "k \<notin> revealed_twists ?e"
    using check_revelation_timing_unrevealed by blast
  have "keys_match (apply_calls TwistEngine_init (before @ [MarkRevealed tid] @ later))"
    by (intro keys_match_apply_calls keys_match_init)
  then have "keys_match ?e"
    by (simp add: apply_calls_def)
  then have "twist_id t = k"
    using k(1) by (rule keys_match_twist)
  moreover have "tid \<in> revealed_twists ?e"
    by (intro revealed_apply_calls) (simp add: mark_revealed_def)
  ultimately show "twist_id t \<noteq> tid"
    using k(2) by auto
next
  let ?e = "apply_calls (mark_herring_deployed hid (apply_calls TwistEngine_init before)) later"
  assume "h \<in> set (check_red_herring_deployment ?e st)"
  then obtain k where k: "(k, h) \<in> set (red_herrings ?e)" "k \<notin> deployed_herrings ?e"
    using check_red_herring_deployment_undeployed by blast
  have "keys_match (apply_calls TwistEngine_init (before @ [MarkHerringDeployed hid] @ later))"
    by (intro keys_match_apply_calls keys_match_init)
  then have "keys_match ?e"
    by (simp add: apply_calls_def)
  then have "herring_id h = k"
    using k(1) by (rule keys_match_herring)
  moreover have "hid \<in> deployed_herrings ?e"
    by (intro deployed_apply_calls) (simp add: mark_herring_deployed_def)
  ultimately show "herring_id h \<noteq> hid"
    using k(2) by auto
qed


definition demo_twist :: "string \<Rightarrow> Twist" where
  "demo_twist tid =
     \<lparr>twist_id = tid, title = ''The steward secret'', description = [], revelation_text = [],
      required_clues = [''c1'', ''c2''], min_clues_for_reveal = 2, required_flags = [],
      required_act = 1,
      foreshadowing_elements =
        [\<lparr>el_scene_type = None, el_id = Some ''e1'', el_subtle_hint = Some ''a raven watches'',
          el_npc = None\<rparr>],
      related_npcs = [], related_decisions = [], priority = 5, affects_ending = False\<rparr>"

definition demo_herring :: "string \<Rightarrow> RedHerring" where
  "demo_herring hid =
     \<lparr>herring_id = hid, herring_description = [], false_conclusion = [], real_truth = [],
      deploy_after_clue = None, deploy_in_act = Some 1, revelation_trigger = None\<rparr>"

definition demo_state :: story_state where
  "demo_state = \<lparr>state_current_act = Some 3, state_revealed_clues = Some [''c1'', ''c2''],
     state_story_flags = None, state_tension_level = Some ''critical''\<rparr>"

definition demo_calls :: "twist_call list" where
  "demo_calls = [RegisterTwist (demo_twist ''t1''), RegisterTwist (demo_twist ''t2''),
     RegisterRedHerring (demo_herring ''h1''), RegisterRedHerring (demo_herring ''h2'')]"

theorem revealed_twist_and_deployed_herring_never_return_witness:
  "check_revelation_timing (apply_calls TwistEngine_init demo_calls) demo_state = Some (demo_twist ''t1'')
   \<and> check_revelation_timing
        (apply_calls (mark_revealed ''t1'' (apply_calls TwistEngine_init demo_calls))
           [RecordForeshadowing ''t2'']) demo_state = Some (demo_twist ''t2'')
   \<and> twist_id (demo_twist ''t2'') \<noteq> ''t1''
   \<and> demo_herring ''h2'' \<in> set (check_red_herring_deployment
        (apply_calls (mark_herring_deployed ''h1'' (apply_calls TwistEngine_init demo_calls))
           [RecordForeshadowing ''t2'']) demo_state)
   \<and> herring_id (demo_herring ''h2'') \<noteq> ''h1''"
proof -
  have a: "check_revelation_timing (apply_calls TwistEngine_init demo_calls) demo_state
      = Some (demo_twist ''t1'')"
    by code_simp
  have b: "check_revelation_timing
        (apply_calls (mark_revealed ''t1'' (apply_calls TwistEngine_init demo_calls))
           [RecordForeshadowing ''t2'']) demo_state = Some (demo_twist ''t2'')"
    by code_simp
  have c: "demo_herring ''h2'' \<in> set (check_red_herring_deployment
        (apply_calls (mark_herring_deployed ''h1'' (apply_calls TwistEngine_init demo_calls))
           [RecordForeshadowing ''t2'']) demo_state)"
    by code_simp
  show ?thesis
    using a b c
      revealed_twist_and_deployed_herring_never_return
        [of "''t1''" demo_calls "[RecordForeshadowing ''t2'']" demo_state "demo_twist ''t2''"
            "demo_herring ''h2''" "''h1''"]
    by blast
qed

subsection \<open>Foreshadowing hints\<close>

lemma generate_foreshadowing_at_most_three:
  "length (generate_foreshadowing e st scene_type) \<le> 3"
  by (simp add: generate_foreshadowing_def Let_def)

lemma generate_foreshadowing_sorted_descending:
  "sorted (map (\<lambda>h. - hint_priority h) (generate_foreshadowing e st scene_type))"
proof -
  have "sorted (take 3 (map (\<lambda>h. - hint_priority h)
      (sort_key (\<lambda>h. - hint_priority h) (concat (map (twist_hints e st scene_type) (twists e))))))"
    by (intro sorted_wrt_take) simp
  then show ?thesis
    by (simp add: generate_foreshadowing_def Let_def take_map)
qed

text \<open>
  Claim C6, at the input where the code departs from it. One twist \<open>t1\<close> with one
  foreshadowing element \<open>e1\<close>: the first call emits the element's hint; the caller records
  it with \<open>record_foreshadowing\<close>, which takes the hint's twist identifier; the second
  call emits the same hint again. The engine looks for the key \<open>t1_e1\<close> (twist identifier,
  underscore, element identifier) among the keys of \<open>foreshadowed\<close>, while
  \<open>record_foreshadowing\<close> stores the count under the key \<open>t1\<close>; only a record under
  \<open>t1_e1\<close> would suppress the hint.
\<close>

theorem recorded_foreshadowing_element_is_emitted_again:
  "generate_foreshadowing (apply_calls TwistEngine_init [RegisterTwist (demo_twist ''t1'')])
      demo_state ''narrative''
     = [\<lparr>hint_twist_id = ''t1'', hint_text = ''a raven watches'', hint_priority = 5,
         hint_npc = None, hint_type = ''foreshadow''\<rparr>]
   \<and> generate_foreshadowing
        (record_foreshadowing ''t1'' (apply_calls TwistEngine_init [RegisterTwist (demo_twist ''t1'')]))
        demo_state ''narrative''
     = [\<lparr>hint_twist_id = ''t1'', hint_text = ''a raven watches'', hint_priority = 5,
         hint_npc = None, hint_type = ''foreshadow''\<rparr>]
   \<and> generate_foreshadowing
        (record_foreshadowing ''t1_e1'' (apply_calls TwistEngine_init [RegisterTwist (demo_twist ''t1'')]))
        demo_state ''narrative''
     = []"
  by code_simp

section \<open>Story graph (services/story\_graph.py)\<close>

subsection \<open>Strings\<close>

text \<open>\<open>str.lower\<close> on ASCII letters; other characters are left as they are.\<close>

definition lower_char :: "char \<Rightarrow> char" where
  "lower_char c = (let n = (of_char c :: nat) in if 65 \<le> n \<and> n \<le> 90 then char_of (n + 32) else c)"

definition lower :: "string \<Rightarrow> string" where
  "lower s = map lower_char s"

text \<open>\<open>s.split(sep)\<close> for a one-character separator: always at least one part.\<close>

fun split_on :: "char \<Rightarrow> string \<Rightarrow> string list" where
  "split_on sep [] = [[]]"
| "split_on sep (c # cs) =
     (if c = sep then [] # split_on sep cs
      else (case split_on sep cs of [] \<Rightarrow> [[c]] | p # ps \<Rightarrow> (c # p) # ps))"

text \<open>\<open>str(x)\<close> for the values modelled.\<close>

fun digits_of_nat :: "nat \<Rightarrow> string" where
  "digits_of_nat n =
     (if n < 10 then [char_of (48 + n)] else digits_of_nat (n div 10) @ [char_of (48 + n mod 10)])"

definition str_of_int :: "int \<Rightarrow> string" where
  "str_of_int i = (if i < 0 then CHR ''-'' # digits_of_nat (nat (- i)) else digits_of_nat (nat i))"

fun py_str :: "pyval \<Rightarrow> string" where
  "py_str PNone = ''None''"
| "py_str (PBool b) = (if b then ''True'' else ''False'')"
| "py_str (PInt i) = str_of_int i"
| "py_str (PStr s) = s"

text \<open>
  \<open>round(x, 1)\<close>: to the nearest multiple of one tenth, a tie going to the even
  multiple. The argument is an exact rational here, where Python rounds the binary float.
\<close>

definition py_round1 :: "rat \<Rightarrow> rat" where
  "py_round1 x =
     (let y = x * 10; f = \<lfloor>y\<rfloor>; d = y - of_int f in
      of_int (if d < 1 / 2 then f else if d > 1 / 2 then f + 1
              else if even f then f else f + 1) / 10)"

subsection \<open>The graph\<close>

record StoryNode =
  node_id :: string
  node_type :: string
  node_title :: string
  node_act :: int
  node_chapter :: int
  node_scene :: int

record StoryEdge =
  from_node :: string
  to_node :: string
  condition :: "string option"
  probability :: rat
  label :: "string option"

text \<open>
  The state of a \<open>StoryGraph\<close>: the nodes and edges of its \<open>networkx.DiGraph\<close> (an edge
  is keyed by its pair of end points and carries the edge record as its attributes), and
  the two identifier sets. Node attributes are read by no function modelled here and are
  not stored. The sets are kept as duplicate-free lists, iterated in insertion order.
\<close>

record StoryGraph =
  graph_nodes :: "string list"
  graph_edges :: "((string \<times> string) \<times> StoryEdge) list"
  endings :: "string list"
  decision_points :: "string list"

definition StoryGraph_init :: StoryGraph where
  "StoryGraph_init = \<lparr>graph_nodes = [], graph_edges = [], endings = [], decision_points = []\<rparr>"

definition add_graph_node :: "string \<Rightarrow> string list \<Rightarrow> string list" where
  "add_graph_node n ns = (if n \<in> set ns then ns else ns @ [n])"

definition add_node :: "StoryNode \<Rightarrow> StoryGraph \<Rightarrow> StoryGraph" where
  "add_node node g =
     (let g = g\<lparr>graph_nodes := add_graph_node (node_id node) (graph_nodes g)\<rparr> in
      if node_type node = ''ending'' then g\<lparr>endings := add_graph_node (node_id node) (endings g)\<rparr>
      else if node_type node = ''decision''
      then g\<lparr>decision_points := add_graph_node (node_id node) (decision_points g)\<rparr>
      else g)"

text \<open>\<open>DiGraph.add_edge\<close> adds both end points as nodes when they are new.\<close>

definition add_edge :: "StoryEdge \<Rightarrow> StoryGraph \<Rightarrow> StoryGraph" where
  "add_edge edge g =
     g\<lparr>graph_nodes := add_graph_node (to_node edge) (add_graph_node (from_node edge) (graph_nodes g)),
       graph_edges := AList.update (from_node edge, to_node edge) edge (graph_edges g)\<rparr>"

definition successors :: "StoryGraph \<Rightarrow> string \<Rightarrow> string list" where
  "successors g u = map (\<lambda>e. snd (fst e)) (filter (\<lambda>e. fst (fst e) = u) (graph_edges g))"

subsection \<open>networkx.all\_simple\_paths\<close>

text \<open>
  The library function, as current networkx releases document and implement it: a
  depth-first search from the source that yields a path whenever it enters a target, and
  extends the current path through a node only while the path has fewer than \<open>cutoff\<close>
  edges and some target is not yet on it. \<open>cutoff\<close> defaults to the number of nodes minus
  one. The path of the single node \<open>source\<close> counts when the source is a target.
  \<open>visited\<close> holds the nodes of the current path before \<open>u\<close>.
\<close>

fun simple_paths_from :: "StoryGraph \<Rightarrow> string list \<Rightarrow> nat \<Rightarrow> string list \<Rightarrow> string \<Rightarrow> string list list" where
  "simple_paths_from g targets 0 visited u = (if u \<in> set targets then [[u]] else [])"
| "simple_paths_from g targets (Suc fuel) visited u =
     (if u \<in> set targets then [[u]] else [])
     @ (if list_ex (\<lambda>t. t \<notin> set (u # visited)) targets
        then concat (map (\<lambda>v. map ((#) u) (simple_paths_from g targets fuel (u # visited) v))
                      (filter (\<lambda>v. v \<notin> set (u # visited)) (successors g u)))
        else [])"

text \<open>
  A source that is not a node raises \<open>NodeNotFound\<close>. A target that is not a node is
  taken as an iterable of targets; for a string these are its characters.
\<close>

definition all_simple_paths :: "StoryGraph \<Rightarrow> string \<Rightarrow> string \<Rightarrow> py_error + string list list" where
  "all_simple_paths g source target =
     (if source \<notin> set (graph_nodes g) then Inl NodeNotFound
      else
        let targets = (if target \<in> set (graph_nodes g) then [target] else map (\<lambda>c. [c]) target)
        in Inr (simple_paths_from g targets (length (graph_nodes g) - 1) [] source))"

subsection \<open>Paths to endings and ending probabilities\<close>

text \<open>
  The loop of \<open>find_paths_to_endings\<close>. \<open>NetworkXNoPath\<close>, the one exception it catches,
  is never raised by \<open>all_simple_paths\<close>; \<open>NodeNotFound\<close> passes through.
\<close>

fun find_paths_loop ::
  "StoryGraph \<Rightarrow> string \<Rightarrow> string list \<Rightarrow> (string \<times> string list list) list
     \<Rightarrow> py_error + (string \<times> string list list) list" where
  "find_paths_loop g source [] paths_by_ending = Inr paths_by_ending"
| "find_paths_loop g source (ending_id # rest) paths_by_ending =
     (case all_simple_paths g source ending_id of
        Inl err \<Rightarrow> Inl err
      | Inr paths \<Rightarrow>
          find_paths_loop g source rest
            (if paths \<noteq> [] then AList.update ending_id paths paths_by_ending else paths_by_ending))"

definition find_paths_to_endings ::
  "StoryGraph \<Rightarrow> string \<Rightarrow> py_error + (string \<times> string list list) list" where
  "find_paths_to_endings g source = find_paths_loop g source (endings g) []"

definition check_condition :: "string \<Rightarrow> (string \<times> string) list \<Rightarrow> (string \<times> pyval) list \<Rightarrow> bool" where
  "check_condition cond decisions_made story_flags =
     (case split_on CHR '':'' cond of
        [flag_name, expected] \<Rightarrow>
          (let actual = dict_get story_flags flag_name in
           if lower expected = ''true'' then py_truthy actual
           else if lower expected = ''false'' then \<not> py_truthy actual
           else py_str actual = expected)
      | [p0, decision_code, expected_option] \<Rightarrow>
          (if p0 = ''decision'' then map_of decisions_made decision_code = Some expected_option
           else True)
      | _ \<Rightarrow> True)"

fun path_weight_loop ::
  "StoryGraph \<Rightarrow> (string \<times> string) list \<Rightarrow> (string \<times> pyval) list \<Rightarrow> rat \<Rightarrow> string list \<Rightarrow> rat" where
  "path_weight_loop g decisions_made story_flags weight (u # v # rest) =
     (let edge_data = map_of (graph_edges g) (u, v);
          cond = (case edge_data of None \<Rightarrow> None | Some e \<Rightarrow> condition e);
          base_prob = (case edge_data of None \<Rightarrow> 1 | Some e \<Rightarrow> probability e);
          weight = weight * base_prob;
          weight = (case cond of
                      None \<Rightarrow> weight
                    | Some c \<Rightarrow>
                        if c = [] then weight
                        else if check_condition c decisions_made story_flags then weight
                        else weight * (1 / 10))
      in path_weight_loop g decisions_made story_flags weight (v # rest))"
| "path_weight_loop g decisions_made story_flags weight path = weight"

definition calculate_path_weight ::
  "StoryGraph \<Rightarrow> string list \<Rightarrow> (string \<times> string) list \<Rightarrow> (string \<times> pyval) list \<Rightarrow> rat" where
  "calculate_path_weight g path decisions_made story_flags =
     path_weight_loop g decisions_made story_flags 1 path"

text \<open>\<open>max(path_weights) if path_weights else 0.0\<close>.\<close>

definition max_or_zero :: "rat list \<Rightarrow> rat" where
  "max_or_zero ws = (case ws of [] \<Rightarrow> 0 | w # rest \<Rightarrow> foldl max w rest)"

definition ending_weights ::
  "StoryGraph \<Rightarrow> (string \<times> string) list \<Rightarrow> (string \<times> pyval) list
     \<Rightarrow> (string \<times> string list list) list \<Rightarrow> (string \<times> rat) list" where
  "ending_weights g decisions_made story_flags paths_by_ending =
     map (\<lambda>ep. (fst ep, max_or_zero (map (\<lambda>path. calculate_path_weight g path decisions_made story_flags)
                                       (snd ep))))
       paths_by_ending"

definition calculate_ending_probabilities ::
  "StoryGraph \<Rightarrow> string \<Rightarrow> (string \<times> string) list \<Rightarrow> (string \<times> pyval) list
     \<Rightarrow> py_error + (string \<times> rat) list" where
  "calculate_ending_probabilities g current_node decisions_made story_flags =
     (case find_paths_to_endings g current_node of
        Inl err \<Rightarrow> Inl err
      | Inr paths_by_ending \<Rightarrow>
          if paths_by_ending = [] then Inr []
          else
            let probabilities = ending_weights g decisions_made story_flags paths_by_ending;
                total_weight = sum_list (map snd probabilities)
            in if total_weight > 0
               then Inr (map (\<lambda>p. (fst p, py_round1 (snd p / total_weight * 100))) probabilities)
               else Inr probabilities)"

definition scene_node :: "string \<Rightarrow> string \<Rightarrow> StoryNode" where
  "scene_node nid ty = \<lparr>node_id = nid, node_type = ty, node_title = [], node_act = 1, node_chapter = 1, node_scene = 1\<rparr>"

definition scenario_graph :: StoryGraph where
  "scenario_graph =
     add_edge \<lparr>from_node = ''A'', to_node = ''C'', condition = Some ''flag_x:true'',
               probability = 1 / 2, label = None\<rparr>
      (add_edge \<lparr>from_node = ''A'', to_node = ''B'', condition = None, probability = 1, label = None\<rparr>
        (add_node (scene_node ''C'' ''ending'')
          (add_node (scene_node ''B'' ''scene'')
            (add_node (scene_node ''A'' ''scene'') StoryGraph_init))))"

text \<open>
  Claim C9. In the graph with edges A to B (probability 1.0, no condition) and A to C
  (probability 0.5, condition \<open>flag_x:true\<close>) where only C is an ending, with \<open>flag_x\<close>
  false (or absent), the weight of the path from A to C is 0.5 times 0.1, that is 0.05,
  the only path to an ending from A is A, C, and \<open>calculate_ending_probabilities\<close> from A
  returns 100.0 for C alone.
\<close>

theorem scenario_path_weight_and_probability:
  "calculate_path_weight scenario_graph [''A'', ''C''] [] [(''flag_x'', PBool False)] = 1 / 2 * (1 / 10)
   \<and> calculate_path_weight scenario_graph [''A'', ''C''] [] [(''flag_x'', PBool False)] = 5 / 100
   \<and> find_paths_to_endings scenario_graph ''A'' = Inr [(''C'', [[''A'', ''C'']])]
   \<and> calculate_ending_probabilities scenario_graph ''A'' [] [(''flag_x'', PBool False)]
        = Inr [(''C'', 100)]
   \<and> calculate_path_weight scenario_graph [''A'', ''C''] [] [] = 5 / 100
   \<and> calculate_ending_probabilities scenario_graph ''A'' [] [] = Inr [(''C'', 100)]"
  by code_simp

subsection \<open>A start node that is not in the graph\<close>

lemma find_paths_loop_missing_source:
  "source \<notin> set (graph_nodes g) \<Longrightarrow> es \<noteq> [] \<Longrightarrow> find_paths_loop g source es acc = Inl NodeNotFound"
  by (cases es) (simp_all add: all_simple_paths_def)

text \<open>
  Claim C10 as stated fails for a graph without endings: the loop over the endings never
  calls \<open>all_simple_paths\<close>, so nothing is raised and both functions return the empty map.
  The freshly constructed graph is such a graph.
\<close>

theorem no_endings_no_exception:
  "''scene_1'' \<notin> set (graph_nodes StoryGraph_init)
   \<and> find_paths_to_endings StoryGraph_init ''scene_1'' = Inr []
   \<and> calculate_ending_probabilities StoryGraph_init ''scene_1'' [] [] = Inr []"
  by (simp add: StoryGraph_init_def find_paths_to_endings_def calculate_ending_probabilities_def)

text \<open>
  Claim C10, amended. If the queried node is not a node of the graph and the graph has at
  least one ending, \<open>find_paths_to_endings\<close> and \<open>calculate_ending_probabilities\<close> raise
  \<open>NodeNotFound\<close>; if the graph has no ending, both return the empty map.
\<close>

theorem missing_start_node_raises_when_graph_has_endings:
  "(current_node \<notin> set (graph_nodes g) \<and> endings g \<noteq> [] \<longrightarrow>
      find_paths_to_endings g current_node = Inl NodeNotFound
      \<and> calculate_ending_probabilities g current_node decisions_made story_flags = Inl NodeNotFound)
   \<and> (endings g = [] \<longrightarrow>
      find_paths_to_endings g current_node = Inr []
      \<and> calculate_ending_probabilities g current_node decisions_made story_flags = Inr [])"
  by (simp add: find_paths_to_endings_def calculate_ending_probabilities_def
      find_paths_loop_missing_source)

theorem missing_start_node_raises_witness:
  "''Z'' \<notin> set (graph_nodes scenario_graph) \<and> endings scenario_graph \<noteq> []
   \<and> find_paths_to_endings scenario_graph ''Z'' = Inl NodeNotFound
   \<and> calculate_ending_probabilities scenario_graph ''Z'' [] [] = Inl NodeNotFound
   \<and> endings StoryGraph_init = []
   \<and> find_paths_to_endings StoryGraph_init ''Z'' = Inr []"
proof -
  have h: "''Z'' \<notin> set (graph_nodes scenario_graph) \<and> endings scenario_graph \<noteq> []"
    by code_simp
  have e: "endings StoryGraph_init = []"
    by (simp add: StoryGraph_init_def)
  show ?thesis
    using h e missing_start_node_raises_when_graph_has_endings [of "''Z''" scenario_graph "[]" "[]"]
      missing_start_node_raises_when_graph_has_endings [of "''Z''" StoryGraph_init "[]" "[]"]
    by blast
qed

subsection \<open>Rounding and normalisation\<close>





subsection \<open>Reachability and the depth-first enumeration\<close>



definition wf_graph :: "StoryGraph \<Rightarrow> bool" where
  "wf_graph g = (distinct (graph_nodes g)
     \<and> list_all (\<lambda>e. fst (fst e) \<in> set (graph_nodes g) \<and> snd (fst e) \<in> set (graph_nodes g)) (graph_edges g)
     \<and> list_all (\<lambda>n. n \<in> set (graph_nodes g)) (endings g))"











subsection \<open>The result of the probability computation\<close>















lemma set_add_graph_node: "set (add_graph_node n ns) = insert n (set ns)"
  by (auto simp: add_graph_node_def)

lemma distinct_add_graph_node: "distinct ns \<Longrightarrow> distinct (add_graph_node n ns)"
  by (simp add: add_graph_node_def)

lemma wf_graph_init: "wf_graph StoryGraph_init"
  by (simp add: wf_graph_def StoryGraph_init_def)

lemma wf_graph_add_node: "wf_graph g \<Longrightarrow> wf_graph (add_node node g)"
  unfolding wf_graph_def add_node_def Let_def list_all_iff
  by (simp add: set_add_graph_node distinct_add_graph_node)

lemma edges_after_update:
  "e \<in> set (AList.update k v al) \<Longrightarrow> e = (k, v) \<or> e \<in> set al"
  by (induction al) (auto split: if_splits)

lemma wf_graph_add_edge:
  assumes "wf_graph g"
  shows "wf_graph (add_edge edge g)"
proof -
  let ?ns = "add_graph_node (to_node edge) (add_graph_node (from_node edge) (graph_nodes g))"
  have ns: "set ?ns = insert (to_node edge) (insert (from_node edge) (set (graph_nodes g)))"
    by (simp add: set_add_graph_node)
  have d: "distinct ?ns"
    using assms by (simp add: wf_graph_def distinct_add_graph_node)
  have e: "fst (fst e) \<in> set ?ns \<and> snd (fst e) \<in> set ?ns"
    if "e \<in> set (AList.update (from_node edge, to_node edge) edge (graph_edges g))" for e
    using edges_after_update [OF that] assms unfolding ns
    by (auto simp: wf_graph_def list_all_iff)
  have n: "n \<in> set ?ns" if "n \<in> set (endings g)" for n
    using that assms unfolding ns by (auto simp: wf_graph_def list_all_iff)
  show ?thesis
    unfolding wf_graph_def list_all_iff using d e n by (simp add: add_edge_def)
qed





section \<open>Narrative analyzer (services/narrative\_analyzer.py, models/action.py)\<close>

datatype ActionType =
    DIALOGUE | EXPLORATION | COMBAT | STEALTH | SOCIAL | INVESTIGATION | ITEM_USE
  | SKILL_CHECK | DECISION | REST | TRAVEL | MAGIC | NEUTRAL

datatype MoralAlignment = HEROIC | GOOD | ALIGNMENT_NEUTRAL | SELFISH | VILLAINOUS

record KarmaChange =
  kc_action_code :: string
  kc_amount :: int
  kc_reason :: string

record PlayerAction =
  pa_room_id :: int
  pa_user_id :: int
  pa_username :: string
  pa_message :: string
  pa_character_name :: "string option"
  pa_character_class :: "string option"
  pa_current_scene_type :: "string option"
  pa_active_npcs :: "string list"

text \<open>
  The fields of \<open>ActionAnalysis\<close> that \<open>analyze\<close> sets; the others keep their class
  defaults. Confidence and coherence are floats, exact rationals here.
\<close>

record ActionAnalysis =
  an_original_message :: string
  an_action_type :: ActionType
  an_moral_alignment :: MoralAlignment
  an_confidence :: rat
  an_target_npc :: "string option"
  an_detected_intent :: "string option"
  an_karma_actions :: "KarmaChange list"
  an_total_karma_change :: int
  an_triggers_decision :: "string option"
  an_npc_interactions :: "(string \<times> string) list"
  an_coherence_score :: rat
  an_coherence_notes :: "string list"

subsection \<open>The regular-expression module and the pattern tables\<close>

text \<open>
  Python's \<open>re\<close> module is a parameter: \<open>re_compiles p\<close> says whether \<open>p\<close> is a
  pattern \<open>re\<close> accepts, and \<open>re_matches p s\<close> whether a search for the accepted pattern
  \<open>p\<close>, ignoring case, finds a match in \<open>s\<close>. \<open>re.search\<close> compiles its pattern first and
  raises \<open>re.error\<close> when the pattern is not accepted.
\<close>

record re_module =
  re_compiles :: "string \<Rightarrow> bool"
  re_matches :: "string \<Rightarrow> string \<Rightarrow> bool"

definition re_search :: "re_module \<Rightarrow> string \<Rightarrow> string \<Rightarrow> py_error + bool" where
  "re_search re pattern s =
     (if re_compiles re pattern then Inr (re_matches re pattern s) else Inl ReError)"

text \<open>
  The pattern tables of the analyzer are Spanish regular expressions, fixed in the source
  and accepted by \<open>re\<close>: the four class-level tables are compiled when the analyzer is
  constructed, the intent and decision-trigger tables are literals of their functions.
  Their contents are a parameter; what is modelled is how \<open>analyze\<close> uses them. Each table
  is in the dictionary's insertion order.
\<close>

record pattern_tables =
  ACTION_PATTERNS :: "(ActionType \<times> string list) list"
  MORAL_PATTERNS :: "(MoralAlignment \<times> string list) list"
  KARMA_PATTERNS :: "(string \<times> string list) list"
  NPC_INTERACTION_PATTERNS :: "(string \<times> string list) list"
  intent_patterns :: "(string \<times> string) list"
  trigger_patterns :: "(string \<times> string) list"

definition KARMA_ACTIONS :: "(string \<times> int) list" where
  "KARMA_ACTIONS =
    [(''helped_innocent'', 10), (''showed_mercy'', 15), (''kept_promise'', 10),
     (''donated_to_poor'', 12), (''exposed_corruption'', 20), (''saved_life'', 25),
     (''protected_weak'', 15), (''told_truth'', 5), (''forgave_enemy'', 20),
     (''self_sacrifice'', 30),
     (''lied_for_gain'', - 5), (''stole'', - 8), (''killed_unarmed'', - 20),
     (''betrayed_ally'', - 30), (''broke_promise'', - 15), (''tortured'', - 25),
     (''killed_innocent'', - 40), (''abandoned_ally'', - 20), (''blackmailed'', - 15),
     (''poisoned'', - 20)]"

subsection \<open>Strings\<close>

text \<open>\<open>str.strip()\<close>: ASCII white space removed at both ends.\<close>

definition is_space :: "char \<Rightarrow> bool" where
  "is_space c = (let n = (of_char c :: nat) in (9 \<le> n \<and> n \<le> 13) \<or> (28 \<le> n \<and> n \<le> 32))"

definition strip :: "string \<Rightarrow> string" where
  "strip s = rev (dropWhile is_space (rev (dropWhile is_space s)))"

text \<open>\<open>x in s\<close> for strings: \<open>x\<close> occurs in \<open>s\<close> as a contiguous piece.\<close>

fun starts_with :: "string \<Rightarrow> string \<Rightarrow> bool" where
  "starts_with s [] = True"
| "starts_with [] (x # xs) = False"
| "starts_with (c # s) (x # xs) = (c = x \<and> starts_with s xs)"

fun contains :: "string \<Rightarrow> string \<Rightarrow> bool" where
  "contains [] x = (x = [])"
| "contains (c # s) x = (starts_with (c # s) x \<or> contains s x)"

subsection \<open>Classification\<close>

text \<open>\<open>sum(1 for p in patterns if p.search(message))\<close>.\<close>

definition count_matches :: "re_module \<Rightarrow> string list \<Rightarrow> string \<Rightarrow> nat" where
  "count_matches re patterns message = length (filter (\<lambda>p. re_matches re p message) patterns)"

text \<open>
  \<open>max(scores, key=scores.get)\<close>: the first key, in insertion order, whose score is the
  greatest. Only called on a non-empty dictionary.
\<close>

fun max_key :: "('k \<times> rat) \<Rightarrow> ('k \<times> rat) list \<Rightarrow> ('k \<times> rat)" where
  "max_key best [] = best"
| "max_key best (kv # rest) = max_key (if snd best < snd kv then kv else best) rest"

definition classify_action_type :: "re_module \<Rightarrow> pattern_tables \<Rightarrow> string \<Rightarrow> ActionType \<times> rat" where
  "classify_action_type re tables message =
     (let scores = concat (map (\<lambda>tp.
            let matches = count_matches re (snd tp) message in
            if matches > 0 then [(fst tp, of_nat matches / of_nat (length (snd tp)))] else [])
          (ACTION_PATTERNS tables))
      in case scores of
           [] \<Rightarrow> (NEUTRAL, 1 / 2)
         | s # rest \<Rightarrow>
             (let best = max_key s rest in (fst best, min (snd best * 2) 1)))"

definition classify_moral_alignment ::
  "re_module \<Rightarrow> pattern_tables \<Rightarrow> string \<Rightarrow> MoralAlignment \<times> rat" where
  "classify_moral_alignment re tables message =
     (let scores = concat (map (\<lambda>tp.
            let matches = count_matches re (snd tp) message in
            if matches > 0 then [(fst tp, of_nat matches)] else [])
          (MORAL_PATTERNS tables))
      in case scores of
           [] \<Rightarrow> (ALIGNMENT_NEUTRAL, 8 / 10)
         | s # rest \<Rightarrow>
             (let best = max_key s rest in (fst best, min (snd best * (3 / 10) + 1 / 2) 1)))"

text \<open>
  One karma change for each action code with a matching pattern. The reason text is
  Spanish prose, written without its accent.
\<close>

definition detect_karma_actions :: "re_module \<Rightarrow> pattern_tables \<Rightarrow> string \<Rightarrow> KarmaChange list" where
  "detect_karma_actions re tables message =
     concat (map (\<lambda>cp.
        if list_ex (\<lambda>p. re_matches re p message) (snd cp)
        then [\<lparr>kc_action_code = fst cp,
               kc_amount = (case map_of KARMA_ACTIONS (fst cp) of None \<Rightarrow> 0 | Some a \<Rightarrow> a),
               kc_reason = ''Accion detectada: '' @ fst cp\<rparr>]
        else [])
      (KARMA_PATTERNS tables))"

subsection \<open>Target NPC\<close>

text \<open>
  The four f-string patterns of \<open>_detect_target_npc\<close>; the NPC code is put into the
  pattern as it is, with no escaping. The backslash is the character 0x5C.
\<close>

definition address_patterns :: "string \<Rightarrow> string list" where
  "address_patterns npc =
     [[CHR 0x5C, CHR ''b''] @ ''a '' @ npc @ [CHR 0x5C, CHR ''b''],
      [CHR 0x5C, CHR ''b''] @ ''con '' @ npc @ [CHR 0x5C, CHR ''b''],
      [CHR 0x5C, CHR ''b''] @ ''a l[ao]s? '' @ npc @ [CHR 0x5C, CHR ''b''],
      [CHR 0x5C, CHR ''b''] @ ''el/la '' @ npc @ [CHR 0x5C, CHR ''b'']]"

text \<open>The inner loop: the first pattern that does not compile raises, a match returns.\<close>

fun any_pattern_found :: "re_module \<Rightarrow> string list \<Rightarrow> string \<Rightarrow> py_error + bool" where
  "any_pattern_found re [] s = Inr False"
| "any_pattern_found re (p # ps) s =
     (case re_search re p s of
        Inl err \<Rightarrow> Inl err
      | Inr found \<Rightarrow> if found then Inr True else any_pattern_found re ps s)"

fun detect_target_loop :: "re_module \<Rightarrow> string \<Rightarrow> string list \<Rightarrow> py_error + string option" where
  "detect_target_loop re message_lower [] = Inr None"
| "detect_target_loop re message_lower (npc # rest) =
     (if contains message_lower (lower npc) then Inr (Some npc)
      else
        (case any_pattern_found re (address_patterns npc) message_lower of
           Inl err \<Rightarrow> Inl err
         | Inr found \<Rightarrow>
             if found then Inr (Some npc) else detect_target_loop re message_lower rest))"

definition detect_target_npc :: "re_module \<Rightarrow> string \<Rightarrow> string list \<Rightarrow> py_error + string option" where
  "detect_target_npc re message active_npcs = detect_target_loop re (lower message) active_npcs"

text \<open>
  The interaction style of the targeted NPC: every style with a matching pattern
  overwrites the entry, so the last one stands; with none it is \<open>neutral\<close>. No entry when
  there is no target or the target is the empty string.
\<close>

definition detect_npc_interactions ::
  "re_module \<Rightarrow> pattern_tables \<Rightarrow> string \<Rightarrow> string list \<Rightarrow> py_error + (string \<times> string) list" where
  "detect_npc_interactions re tables message active_npcs =
     (case detect_target_npc re message active_npcs of
        Inl err \<Rightarrow> Inl err
      | Inr target \<Rightarrow>
          (case target of
             None \<Rightarrow> Inr []
           | Some t \<Rightarrow>
               if t = [] then Inr []
               else
                 (case filter (\<lambda>ip. list_ex (\<lambda>p. re_matches re p message) (snd ip))
                         (NPC_INTERACTION_PATTERNS tables) of
                    [] \<Rightarrow> Inr [(t, ''neutral'')]
                  | m # ms \<Rightarrow> Inr [(t, fst (last (m # ms)))])))"

subsection \<open>Intent, coherence, decision triggers\<close>

definition detect_intent :: "re_module \<Rightarrow> pattern_tables \<Rightarrow> string \<Rightarrow> ActionType \<Rightarrow> string option" where
  "detect_intent re tables message action_ty =
     (case filter (\<lambda>ip. re_matches re (snd ip) message) (intent_patterns tables) of
        ip # _ \<Rightarrow> Some (fst ip)
      | [] \<Rightarrow>
          map_of [(DIALOGUE, ''communicate''), (COMBAT, ''attack''), (STEALTH, ''hide''),
                  (EXPLORATION, ''explore''), (INVESTIGATION, ''gather_info'')] action_ty)"

text \<open>The coherence notes are Spanish prose, written without accents.\<close>

definition evaluate_coherence :: "ActionType \<Rightarrow> string option \<Rightarrow> rat \<times> string list" where
  "evaluate_coherence action_ty scene_type =
     (case scene_type of
        None \<Rightarrow> (1, [])
      | Some st \<Rightarrow>
          if st = [] then (1, [])
          else
            let scene_expected_actions =
                  [(''narrative'', [DIALOGUE, EXPLORATION]), (''combat'', [COMBAT, MAGIC]),
                   (''puzzle'', [INVESTIGATION, ITEM_USE]), (''social'', [DIALOGUE, SOCIAL]),
                   (''revelation'', [DIALOGUE, INVESTIGATION]), (''decision'', [DIALOGUE, DECISION])];
                expected = (case map_of scene_expected_actions st of None \<Rightarrow> [] | Some e \<Rightarrow> e)
            in if action_ty \<in> set expected then (1, [''Accion coherente con la escena''])
               else if action_ty \<in> set [DIALOGUE, NEUTRAL]
               then (9 / 10, [''Accion generalmente aceptable''])
               else if action_ty = COMBAT \<and> st \<noteq> ''combat''
               then (6 / 10, [''Accion de combate en escena no combativa - puede escalar la situacion''])
               else if action_ty = STEALTH \<and> st = ''social''
               then (7 / 10, [''Intento de sigilo en situacion social - puede parecer sospechoso''])
               else (8 / 10, [''Accion no tipica para esta escena pero posible'']))"

definition check_decision_triggers :: "re_module \<Rightarrow> pattern_tables \<Rightarrow> string \<Rightarrow> string option" where
  "check_decision_triggers re tables message =
     (case filter (\<lambda>tp. re_matches re (snd tp) message) (trigger_patterns tables) of
        tp # _ \<Rightarrow> Some (''trigger_'' @ fst tp)
      | [] \<Rightarrow> None)"

subsection \<open>analyze\<close>

definition analyze :: "re_module \<Rightarrow> pattern_tables \<Rightarrow> PlayerAction \<Rightarrow> py_error + ActionAnalysis" where
  "analyze re tables action =
     (let message = strip (lower (pa_message action));
          (action_ty, type_confidence) = classify_action_type re tables message;
          (alignment, alignment_confidence) = classify_moral_alignment re tables message;
          karma_actions = detect_karma_actions re tables message
      in case detect_target_npc re message (pa_active_npcs action) of
           Inl err \<Rightarrow> Inl err
         | Inr target \<Rightarrow>
             (case detect_npc_interactions re tables message (pa_active_npcs action) of
                Inl err \<Rightarrow> Inl err
              | Inr interactions \<Rightarrow>
                  (let intent = detect_intent re tables message action_ty;
                       (coherence, coherence_notes) =
                          evaluate_coherence action_ty (pa_current_scene_type action);
                       decision_trigger = check_decision_triggers re tables message;
                       confidence = (type_confidence + alignment_confidence) / 2
                   in Inr \<lparr>an_original_message = pa_message action,
                           an_action_type = action_ty,
                           an_moral_alignment = alignment,
                           an_confidence = confidence,
                           an_target_npc = target,
                           an_detected_intent = intent,
                           an_karma_actions = karma_actions,
                           an_total_karma_change = sum_list (map kc_amount karma_actions),
                           an_triggers_decision = decision_trigger,
                           an_npc_interactions = interactions,
                           an_coherence_score = coherence,
                           an_coherence_notes = coherence_notes\<rparr>)))"


subsection \<open>Defaults and failure\<close>

lemma detect_target_loop_none:
  assumes "\<And>p. re_compiles re p" and "\<And>p s. \<not> re_matches re p s"
    and "\<And>n. n \<in> set npcs \<Longrightarrow> \<not> contains message_lower (lower n)"
  shows "detect_target_loop re message_lower npcs = Inr None"
  using assms(3)
proof (induction npcs)
  case Nil
  then show ?case by simp
next
  case (Cons n npcs)
  have "any_pattern_found re ps message_lower = Inr False" for ps
    by (induction ps) (simp_all add: re_search_def assms(1,2))
  with Cons show ?case by simp
qed

text \<open>
  When \<open>re\<close> accepts every pattern, no pattern of any table or of the address patterns
  matches, and no active NPC code occurs in the message, \<open>analyze\<close> returns the neutral
  defaults.
\<close>

lemma analyze_defaults_without_signal:
  assumes "\<And>p. re_compiles re p" and "\<And>p s. \<not> re_matches re p s"
    and "\<And>n. n \<in> set (pa_active_npcs action)
           \<Longrightarrow> \<not> contains (lower (strip (lower (pa_message action)))) (lower n)"
  shows "\<exists>a. analyze re tables action = Inr a
     \<and> an_action_type a = NEUTRAL \<and> an_moral_alignment a = ALIGNMENT_NEUTRAL
     \<and> an_karma_actions a = [] \<and> an_total_karma_change a = 0
     \<and> an_target_npc a = None \<and> an_npc_interactions a = []"
proof -
  have t: "detect_target_npc re (strip (lower (pa_message action))) (pa_active_npcs action) = Inr None"
    unfolding detect_target_npc_def by (rule detect_target_loop_none [OF assms])
  have f: "filter (\<lambda>p. re_matches re p m) ps = []" for m ps
    by (simp add: assms(2))
  have e: "concat (map (\<lambda>x. []) xs) = []" for xs :: "'a list"
    by (induction xs) simp_all
  have c: "classify_action_type re tables m = (NEUTRAL, 1 / 2)" for m
    by (simp add: classify_action_type_def count_matches_def f e)
  have m: "classify_moral_alignment re tables m = (ALIGNMENT_NEUTRAL, 8 / 10)" for m
    by (simp add: classify_moral_alignment_def count_matches_def f e)
  have k: "detect_karma_actions re tables m = []" for m
    by (simp add: detect_karma_actions_def list_ex_iff assms(2) e)
  show ?thesis
    by (simp add: analyze_def Let_def t c m k detect_npc_interactions_def split: prod.splits)
qed

lemma detect_target_by_occurrence:
  "contains (lower message) (lower n) \<Longrightarrow> detect_target_npc re message (n # rest) = Inr (Some n)"
  by (simp add: detect_target_npc_def)





end
